theory Spec2Isabelle
  imports Complex_Main "HOL-Library.Word"
begin

section \<open>Status codes (utils/status-codes)\<close>

text \<open>
  The tables of the status-code module. A JavaScript object indexed by a number is a
  finite map from that number to a label; a missing key reads as \<open>undefined\<close>,
  here \<open>None\<close>.
\<close>

definition MACHINE_STATUS_PRINTING_RECOVERY :: int where
  "MACHINE_STATUS_PRINTING_RECOVERY = 13"

definition JOB_STATUS_PRINTING_RECOVERY :: int where
  "JOB_STATUS_PRINTING_RECOVERY = 13"

definition MACHINE_STATUS_LABELS :: "int \<Rightarrow> string option" where
  "MACHINE_STATUS_LABELS = map_of
     [(0, ''IDLE''), (1, ''PRINTING''), (2, ''FILE_TRANSFERRING''), (5, ''LEVELING''),
      (7, ''STOPPING''), (8, ''STOPPED''), (9, ''HOMING''), (12, ''RECOVERY''),
      (13, ''PRINTING'')]"

definition JOB_STATUS_LABELS :: "int \<Rightarrow> string option" where
  "JOB_STATUS_LABELS = map_of
     [(0, ''IDLE''), (1, ''HOMING''), (2, ''DROPPING''), (3, ''PRINTING''), (4, ''LIFTING''),
      (5, ''PAUSING''), (6, ''PAUSED''), (7, ''STOPPING''), (8, ''STOPPED''),
      (9, ''COMPLETE''), (10, ''FILE_CHECKING''), (12, ''RECOVERY''),
      (13, ''PRINTING_RECOVERY''), (15, ''LOADING''), (16, ''PREHEATING''),
      (20, ''LEVELING'')]"

section \<open>Device payloads\<close>

text \<open>
  A status payload as the device client hands it to the server. An absent (or
  \<open>undefined\<close>/\<open>null\<close>) member is \<open>None\<close>. Status codes are integers or absent;
  \<open>CurrentStatus\<close> is absent, one number, or an array of numbers. The other numbers
  of the payload are rationals, so that \<open>Math.floor\<close> and \<open>Math.round\<close> keep
  their meaning; arithmetic on them is exact, as the code's double arithmetic is on
  integers below \<open>2^53\<close>. A temperature member is tested with \<open>!== undefined\<close>,
  so for it \<open>null\<close> is kept apart from \<open>undefined\<close>.
\<close>

datatype temp_member = Temp_undefined | Temp_null | Temp_num rat

datatype current_status = CS_absent | CS_number int | CS_array "int list"

record print_info =
  pi_Status :: "int option"
  pi_Progress :: "rat option"
  pi_Filename :: "string option"
  pi_CurrentTicks :: "rat option"
  pi_TotalTicks :: "rat option"
  pi_TotalLayer :: "rat option"
  pi_CurrentLayer :: "rat option"

record status_block =
  CurrentStatus :: current_status
  PrintInfo :: "print_info option"
  TempOfHotbed :: temp_member
  TempTargetHotbed :: temp_member
  TempOfNozzle :: temp_member
  TempTargetNozzle :: temp_member
  TempOfBox :: temp_member
  TempTargetBox :: temp_member

record attributes =
  attr_Name :: "string option"

record payload =
  Attributes :: "attributes option"
  Status :: "status_block option"

text \<open>The empty object \<open>{}\<close> that \<open>data?.Status || {}\<close> falls back to.\<close>

definition empty_status_block :: status_block where
  "empty_status_block =
     \<lparr>CurrentStatus = CS_absent, PrintInfo = None,
      TempOfHotbed = Temp_undefined, TempTargetHotbed = Temp_undefined,
      TempOfNozzle = Temp_undefined, TempTargetNozzle = Temp_undefined,
      TempOfBox = Temp_undefined, TempTargetBox = Temp_undefined\<rparr>"

section \<open>The status projector (utils/status-utils)\<close>

record state_code =
  sc_state :: string
  sc_code :: "int option"

record status_obj =
  consolidated :: string
  machine :: state_code
  job :: state_code

text \<open>\<open>x || d\<close> on a string-or-null \<open>x\<close>: null and the empty string are falsy.\<close>

definition str_or :: "string option \<Rightarrow> string \<Rightarrow> string" where
  "str_or x d = (case x of None \<Rightarrow> d | Some s \<Rightarrow> if s = [] then d else s)"

text \<open>\<open>TABLE[k]\<close> guarded by \<open>if (TABLE[k])\<close>: a missing or empty label is passed over.\<close>

definition truthy_label :: "string option \<Rightarrow> bool" where
  "truthy_label x = (case x of None \<Rightarrow> False | Some s \<Rightarrow> s \<noteq> [])"

definition mapMachineStatusIntToLabel :: "int option \<Rightarrow> string option" where
  "mapMachineStatusIntToLabel statusInt =
     (if statusInt = Some MACHINE_STATUS_PRINTING_RECOVERY then Some ''PRINTING''
      else case statusInt of
             None \<Rightarrow> None
           | Some n \<Rightarrow> if truthy_label (MACHINE_STATUS_LABELS n) then MACHINE_STATUS_LABELS n
                       else None)"

definition mapJobStatusIntToLabel :: "int option \<Rightarrow> string option" where
  "mapJobStatusIntToLabel statusInt =
     (if statusInt \<in> {Some 18, Some 19, Some 21} then Some ''LOADING''
      else if statusInt = Some JOB_STATUS_PRINTING_RECOVERY then Some ''PRINTING''
      else case statusInt of
             None \<Rightarrow> None
           | Some n \<Rightarrow> if truthy_label (JOB_STATUS_LABELS n) then JOB_STATUS_LABELS n
                       else None)"

definition mapStatusIntToLabel :: "int option \<Rightarrow> string option" where
  "mapStatusIntToLabel statusInt =
     (if statusInt \<in> {Some 18, Some 19, Some 21} then Some ''LOADING''
      else if statusInt = Some MACHINE_STATUS_PRINTING_RECOVERY then Some ''PRINTING''
      else case statusInt of
             None \<Rightarrow> None
           | Some n \<Rightarrow> if truthy_label (MACHINE_STATUS_LABELS n) then MACHINE_STATUS_LABELS n
                       else None)"

text \<open>
  \<open>machineStatusCode\<close>: a number is wrapped into a one-element array, and the first
  element of a non-empty array is the code; everything else gives \<open>null\<close>.
\<close>

definition machineStatusCode_of :: "current_status \<Rightarrow> int option" where
  "machineStatusCode_of cs =
     (case cs of
        CS_absent \<Rightarrow> None
      | CS_number n \<Rightarrow> Some n
      | CS_array xs \<Rightarrow> (case xs of [] \<Rightarrow> None | x # _ \<Rightarrow> Some x))"

definition jobStatusCode_of :: "status_block \<Rightarrow> int option" where
  "jobStatusCode_of statusBlock =
     (case PrintInfo statusBlock of None \<Rightarrow> None | Some p \<Rightarrow> pi_Status p)"

text \<open>
  \<open>parseStatusPayload\<close> returns the object \<open>{status, status_code}\<close>, here the pair
  of the two members.
\<close>

definition parseStatusPayload :: "payload option \<Rightarrow> status_obj \<times> int option" where
  "parseStatusPayload data =
     (let statusBlock =
            (case data of
               None \<Rightarrow> empty_status_block
             | Some d \<Rightarrow> (case Status d of None \<Rightarrow> empty_status_block | Some s \<Rightarrow> s));
          machineStatusCode = machineStatusCode_of (CurrentStatus statusBlock);
          machineState = str_or (mapMachineStatusIntToLabel machineStatusCode) ''UNKNOWN'';
          jobStatusCode = jobStatusCode_of statusBlock;
          jobState = str_or (mapJobStatusIntToLabel jobStatusCode) ''UNKNOWN'';
          consolidatedStatus =
            (if jobStatusCode = Some JOB_STATUS_PRINTING_RECOVERY then ''PRINTING''
             else machineState)
      in (\<lparr>consolidated = consolidatedStatus,
           machine = \<lparr>sc_state = machineState, sc_code = machineStatusCode\<rparr>,
           job = \<lparr>sc_state = jobState, sc_code = jobStatusCode\<rparr>\<rparr>,
          machineStatusCode))"

section \<open>Server state (server.js)\<close>

subsection \<open>The canonical status object\<close>

text \<open>
  \<open>printerStatus.state\<close> starts as the string \<open>'Disconnected'\<close> and is later
  overwritten with the machine status code (a number or \<open>null\<close>).
\<close>

datatype js_state = State_str string | State_code "int option"

record layers =
  l_total :: rat
  l_finished :: "rat option"
  l_current :: "rat option"

text \<open>
  The \<open>temperatures\<close> object is created once, inside \<open>defaultPrinterStatus\<close>.
  Every \<open>printerStatus\<close> is a shallow copy (\<open>{...defaultPrinterStatus}\<close>), so all of
  them share that one object by reference: it is a component of the server state, not
  of the status record, and a reset to defaults does not touch it.
\<close>

record temperatures =
  bed_current :: int
  bed_target :: int
  nozzle_current :: int
  nozzle_target :: int
  enclosure_current :: int
  enclosure_target :: int

text \<open>
  The fields of \<open>printerStatus\<close>; \<open>connected_flag\<close> is the field \<open>connected\<close>.
  \<open>lastUpdate\<close> holds the clock reading whose ISO
  string the source stores. Not modelled: \<open>layerProgress\<close> and \<open>calculatedTime\<close>
  (never written), \<open>users\<close> (the user-statistics module) and the four flat fields
  \<open>machine_status\<close>, \<open>job_status\<close>, \<open>machine_status_code\<close>, \<open>job_status_code\<close>
  that only the unreachable-printer branch writes and nothing reads.
\<close>

record printer_status =
  connected_flag :: bool
  printerName :: string
  state :: js_state
  progress :: rat
  currentFile :: string
  printTime :: int
  remainingTime :: int
  cameraAvailable :: bool
  cameraError :: "string option"
  lastUpdate :: "int option"
  customState :: nat
  layers :: layers
  status :: status_obj
  status_code :: "int option"
  prev_status :: "string option"

definition defaultPrinterStatus :: printer_status where
  "defaultPrinterStatus =
     \<lparr>connected_flag = False,
      printerName = ''Unknown'',
      state = State_str ''Disconnected'',
      progress = 0,
      currentFile = [],
      printTime = 0,
      remainingTime = 0,
      cameraAvailable = False,
      cameraError = None,
      lastUpdate = None,
      customState = 0,
      layers = \<lparr>l_total = 0, l_finished = Some 0, l_current = None\<rparr>,
      status = \<lparr>consolidated = ''UNKNOWN'',
                machine = \<lparr>sc_state = ''UNKNOWN'', sc_code = None\<rparr>,
                job = \<lparr>sc_state = ''UNKNOWN'', sc_code = None\<rparr>\<rparr>,
      status_code = None,
      prev_status = None\<rparr>"

definition defaultTemperatures :: temperatures where
  "defaultTemperatures =
     \<lparr>bed_current = 0, bed_target = 0, nozzle_current = 0, nozzle_target = 0,
      enclosure_current = 0, enclosure_target = 0\<rparr>"

subsection \<open>Messages, web clients, timers\<close>

text \<open>
  A broadcast message \<open>{type, data}\<close>. \<open>JSON.stringify\<close> is taken at call time, so
  what travels is a snapshot: for a status message the status object and the shared
  temperatures as they are at that moment.
\<close>

datatype msg_body = Status_body printer_status temperatures | Restarting_body string

record message =
  msg_type :: string
  msg_body :: msg_body

text \<open>
  A web client is a WebSocket with its \<open>readyState\<close> (\<open>WebSocket.OPEN\<close> is 1) and
  the messages \<open>send\<close> has been called with, oldest first. The set \<open>webClients\<close> is
  iterated in insertion order: a list.
\<close>

definition WebSocket_OPEN :: nat where
  "WebSocket_OPEN = 1"

record ws_client =
  readyState :: nat
  received :: "message list"

text \<open>
  A pending \<open>setTimeout\<close>: when it was set, its delay in milliseconds, and which
  callback it runs.
\<close>

datatype timer_callback =
    Deferred_send message
  | Process_exit
  | Call_autoConnect
  | Call_startCameraStreaming

record timer =
  t_set_at :: int
  t_delay :: int
  t_callback :: timer_callback

subsection \<open>Camera relay state\<close>

type_synonym bytes = "8 word list"

text \<open>
  A camera subscriber is the closure created by \<open>GET /api/camera\<close> over its response
  stream. \<open>res_throws\<close> says whether \<open>res.write\<close> raises on that stream;
  \<open>frames_written\<close> lists the frames the closure wrote as multipart parts, oldest
  first.
\<close>

record camera_subscriber =
  sub_id :: nat
  res_throws :: bool
  frames_written :: "bytes list"

record failure_tracker =
  lastError :: "string option"
  count :: nat

subsection \<open>Discovery candidates\<close>

record discovered =
  address :: string
  d_Name :: "string option"
  d_Id :: "string option"
  Data_Attributes_Proxy :: bool
  Attributes_Proxy :: bool

record auto_connect_state =
  printers :: "discovered list"
  currentIdx :: nat
  failCount :: nat

subsection \<open>The module's global variables\<close>

record server =
  printerStatus :: printer_status
  temperatures :: temperatures
  reconnectSetupInProgress :: bool
  reconnectSetupNeeded :: bool
  printerClient :: "string option"
  webClients :: "ws_client list"
  lastBroadcastTime :: int
  pendingBroadcast :: bool
  timers :: "timer list"
  cameraStreamURL :: "string option"
  printerStream :: bool
  cameraSubscribers :: "camera_subscriber list"
  latestFrame :: "bytes option"
  cameraStartFailure :: failure_tracker
  autoConnectState :: auto_connect_state
  WS_UPDATE_INTERVAL :: int

text \<open>
  \<open>WS_UPDATE_INTERVAL\<close> is read once from the environment: the parsed integer when it
  is finite and positive, 1000 otherwise (\<open>None\<close> is \<open>NaN\<close>).
\<close>

definition WS_UPDATE_INTERVAL_of_env :: "int option \<Rightarrow> int" where
  "WS_UPDATE_INTERVAL_of_env v = (case v of None \<Rightarrow> 1000 | Some n \<Rightarrow> if n > 0 then n else 1000)"

definition CAMERA_MAX_START_FAILURES :: nat where
  "CAMERA_MAX_START_FAILURES = 3"

definition MAX_FPS :: nat where
  "MAX_FPS = 15"

definition initial_server :: "int option \<Rightarrow> server" where
  "initial_server env =
     \<lparr>printerStatus = defaultPrinterStatus,
      temperatures = defaultTemperatures,
      reconnectSetupInProgress = False,
      reconnectSetupNeeded = False,
      printerClient = None,
      webClients = [],
      lastBroadcastTime = 0,
      pendingBroadcast = False,
      timers = [],
      cameraStreamURL = None,
      printerStream = False,
      cameraSubscribers = [],
      latestFrame = None,
      cameraStartFailure = \<lparr>lastError = None, count = 0\<rparr>,
      autoConnectState = \<lparr>printers = [], currentIdx = 0, failCount = 0\<rparr>,
      WS_UPDATE_INTERVAL = WS_UPDATE_INTERVAL_of_env env\<rparr>"

section \<open>The broadcast gate\<close>

text \<open>\<open>webClients.forEach\<close>: every client whose socket is open is sent the data.\<close>

definition send_to_open :: "message \<Rightarrow> ws_client list \<Rightarrow> ws_client list" where
  "send_to_open data cs =
     map (\<lambda>client. if readyState client = WebSocket_OPEN
                    then client\<lparr>received := received client @ [data]\<rparr> else client) cs"

definition buildStatusPayload :: "server \<Rightarrow> msg_body" where
  "buildStatusPayload st = Status_body (printerStatus st) (temperatures st)"

definition status_message :: "server \<Rightarrow> message" where
  "status_message st = \<lparr>msg_type = ''status'', msg_body = buildStatusPayload st\<rparr>"

text \<open>
  \<open>broadcastToClients(message)\<close> at clock reading \<open>now\<close>. The deferred branch
  registers a timer whose callback closes over \<open>data\<close>, the serialisation of the
  message of this very call.
\<close>

definition broadcastToClients :: "int \<Rightarrow> message \<Rightarrow> server \<Rightarrow> server" where
  "broadcastToClients now message st =
     (let data = message; minInterval = WS_UPDATE_INTERVAL st in
      if msg_type message = ''server_restarting'' then
        st\<lparr>webClients := send_to_open data (webClients st), lastBroadcastTime := now\<rparr>
      else if now - lastBroadcastTime st \<ge> minInterval then
        st\<lparr>webClients := send_to_open data (webClients st), lastBroadcastTime := now,
           pendingBroadcast := False\<rparr>
      else if \<not> pendingBroadcast st then
        st\<lparr>pendingBroadcast := True,
           timers := timers st @
             [\<lparr>t_set_at = now, t_delay = minInterval - (now - lastBroadcastTime st),
               t_callback = Deferred_send data\<rparr>]\<rparr>
      else st)"

text \<open>The body of the timeout callback, run at clock reading \<open>now\<close>.\<close>

definition deferredSend :: "int \<Rightarrow> message \<Rightarrow> server \<Rightarrow> server" where
  "deferredSend now data st =
     st\<lparr>webClients := send_to_open data (webClients st), lastBroadcastTime := now,
        pendingBroadcast := False\<rparr>"

text \<open>
  The event loop at clock reading \<open>now\<close>: the deferred-send timers that are due
  leave the timer list and their callbacks run, in the order they were set.
\<close>

definition is_due_send :: "int \<Rightarrow> timer \<Rightarrow> bool" where
  "is_due_send now t =
     (case t_callback t of Deferred_send _ \<Rightarrow> t_set_at t + t_delay t \<le> now | _ \<Rightarrow> False)"

definition run_send :: "int \<Rightarrow> server \<Rightarrow> timer \<Rightarrow> server" where
  "run_send now st t =
     (case t_callback t of Deferred_send data \<Rightarrow> deferredSend now data st | _ \<Rightarrow> st)"

definition runDueSends :: "int \<Rightarrow> server \<Rightarrow> server" where
  "runDueSends now st =
     foldl (run_send now)
       (st\<lparr>timers := filter (\<lambda>t. \<not> is_due_send now t) (timers st)\<rparr>)
       (filter (is_due_send now) (timers st))"

text \<open>A burst: the calls \<open>broadcastToClients(m)\<close> made one after the other, each at its clock reading.\<close>

definition broadcastBurst :: "(int \<times> message) list \<Rightarrow> server \<Rightarrow> server" where
  "broadcastBurst calls st = foldl (\<lambda>s (now, m). broadcastToClients now m s) st calls"

text \<open>
  The same burst with the event loop running: before each call, at the clock reading of
  that call, the deferred sends that are due by then fire.
\<close>

definition broadcastBurstLive :: "(int \<times> message) list \<Rightarrow> server \<Rightarrow> server" where
  "broadcastBurstLive calls st =
     foldl (\<lambda>s (now, m). broadcastToClients now m (runDueSends now s)) st calls"

section \<open>Camera failure tracker\<close>

definition resetCameraFailureTracker :: "server \<Rightarrow> server" where
  "resetCameraFailureTracker st = st\<lparr>cameraStartFailure := \<lparr>lastError = None, count = 0\<rparr>\<rparr>"

text \<open>
  \<open>const message = errMessage || 'Unknown camera error'\<close>: the message the tracker
  compares and stores.
\<close>

definition failure_message :: "string option \<Rightarrow> string" where
  "failure_message errMessage = str_or errMessage ''Unknown camera error''"

definition restarting_message :: "string \<Rightarrow> message" where
  "restarting_message reason = \<lparr>msg_type = ''server_restarting'', msg_body = Restarting_body reason\<rparr>"

definition track_failure :: "string \<Rightarrow> failure_tracker \<Rightarrow> failure_tracker" where
  "track_failure message tr =
     (if lastError tr = Some message then tr\<lparr>count := count tr + 1\<rparr>
      else \<lparr>lastError = Some message, count = 1\<rparr>)"

definition handleCameraStartFailure :: "int \<Rightarrow> string option \<Rightarrow> server \<Rightarrow> server" where
  "handleCameraStartFailure now errMessage st =
     (let message = failure_message errMessage;
          st1 = st\<lparr>cameraStartFailure := track_failure message (cameraStartFailure st)\<rparr>
      in if count (cameraStartFailure st1) \<ge> CAMERA_MAX_START_FAILURES then
           (let st2 = broadcastToClients now (restarting_message message) st1
            in st2\<lparr>timers := timers st2 @
                 [\<lparr>t_set_at = now, t_delay = 1000, t_callback = Process_exit\<rparr>]\<rparr>)
         else st1)"

section \<open>Disconnect handling\<close>

definition setDisconnectedStatus :: "int \<Rightarrow> server \<Rightarrow> server" where
  "setDisconnectedStatus now st =
     (if connected_flag (printerStatus st) = False \<and>
         printerName (printerStatus st) = ''Unknown'' \<and>
         state (printerStatus st) = State_str ''Disconnected''
      then st
      else
        (let st1 = st\<lparr>reconnectSetupNeeded := True,
                      printerStatus := defaultPrinterStatus\<lparr>lastUpdate := Some now\<rparr>\<rparr>
         in broadcastToClients now (status_message st1) st1))"

text \<open>The \<open>disconnect\<close> and \<open>error\<close> events of the device client, one per clock reading.\<close>

definition printerLostEvents :: "int list \<Rightarrow> server \<Rightarrow> server" where
  "printerLostEvents clock st = foldl (\<lambda>s now. setDisconnectedStatus now s) st clock"

section \<open>Camera negotiation and relay start\<close>

fun string_of_nat :: "nat \<Rightarrow> string" where
  "string_of_nat n =
     (if n < 10 then [char_of (48 + n)]
      else string_of_nat (n div 10) @ [char_of (48 + n mod 10)])"

declare string_of_nat.simps [simp del]

definition string_of_int :: "int \<Rightarrow> string" where
  "string_of_int i = (if i < 0 then CHR ''-'' # string_of_nat (nat (- i)) else string_of_nat (nat i))"

definition CAMERA_ACK_ERRORS :: "int \<Rightarrow> string option" where
  "CAMERA_ACK_ERRORS = map_of
     [(1, ''Exceeded maximum simultaneous streaming limit''),
      (2, ''Camera does not exist''),
      (3, ''Unknown error'')]"

text \<open>
  What \<open>await printerClient.requestCameraURL()\<close> gives: a rejection with its
  \<open>err.message\<close>, a response without \<open>Data.Data\<close>, or the members \<open>Ack\<close> and
  \<open>VideoUrl\<close> of \<open>Data.Data\<close>.
\<close>

datatype camera_reply =
    Camera_rejects "string option"
  | Camera_no_data
  | Camera_data "int option" "string option"

definition setupCameraURL :: "camera_reply \<Rightarrow> server \<Rightarrow> server" where
  "setupCameraURL reply st =
     (if printerClient st = None then st
      else case reply of
        Camera_no_data \<Rightarrow> st
      | Camera_data ack videoUrl \<Rightarrow>
          if ack = Some 0 \<and> truthy_label videoUrl then
            st\<lparr>printerStatus := (printerStatus st)\<lparr>cameraAvailable := True, cameraError := None\<rparr>,
               cameraStreamURL := Some (''http://'' @ the videoUrl)\<rparr>
          else
            (let reason =
                   str_or (case ack of None \<Rightarrow> None | Some a \<Rightarrow> CAMERA_ACK_ERRORS a)
                     (''Unknown error code '' @
                        (case ack of None \<Rightarrow> ''undefined'' | Some a \<Rightarrow> string_of_int a))
             in st\<lparr>printerStatus :=
                      (printerStatus st)\<lparr>cameraAvailable := False, cameraError := Some reason\<rparr>,
                    cameraStreamURL := None\<rparr>)
      | Camera_rejects msg \<Rightarrow>
          st\<lparr>printerStatus := (printerStatus st)\<lparr>cameraAvailable := False, cameraError := msg\<rparr>,
             cameraStreamURL := None\<rparr>)"

text \<open>
  What \<open>await fetch(cameraStreamURL)\<close> gives: a response that is \<open>ok\<close>, a response
  that is not (its status and status text), or a rejection with its \<open>err.message\<close>.
\<close>

datatype fetch_result =
    Fetch_ok
  | Fetch_not_ok nat string
  | Fetch_rejects "string option"

definition fetch_error_message :: "fetch_result \<Rightarrow> string option" where
  "fetch_error_message r =
     (case r of
        Fetch_ok \<Rightarrow> None
      | Fetch_not_ok code text \<Rightarrow> Some (''Camera error '' @ string_of_nat code @ '', '' @ text)
      | Fetch_rejects msg \<Rightarrow> msg)"

text \<open>
  \<open>startCameraStreaming\<close> up to the point where the read loop is started. With no
  stream URL the camera is marked unavailable and the tracker is reset. A successful
  fetch resets the tracker and starts the read loop; a failed one is tracked and a
  retry is scheduled.
\<close>

definition startCameraStreaming :: "fetch_result \<Rightarrow> int \<Rightarrow> server \<Rightarrow> server" where
  "startCameraStreaming fetched now st =
     (case cameraStreamURL st of
        None \<Rightarrow>
          (let st1 = st\<lparr>printerStatus := (printerStatus st)
                        \<lparr>cameraAvailable := False,
                         cameraError := Some (str_or (cameraError (printerStatus st))
                                                ''Camera not available'')\<rparr>\<rparr>;
               st2 = broadcastToClients now (status_message st1) st1
           in resetCameraFailureTracker st2)
      | Some url \<Rightarrow>
          (case fetched of
             Fetch_ok \<Rightarrow>
               (let st1 = resetCameraFailureTracker st
                in st1\<lparr>printerStatus := (printerStatus st1)\<lparr>cameraError := None\<rparr>,
                       printerStream := True\<rparr>)
           | _ \<Rightarrow>
               (let msg = fetch_error_message fetched;
                    st1 = st\<lparr>printerStatus := (printerStatus st)
                             \<lparr>cameraAvailable := False, cameraError := msg\<rparr>\<rparr>;
                    st2 = broadcastToClients now (status_message st1) st1;
                    st3 = handleCameraStartFailure now msg st2
                in st3\<lparr>timers := timers st3 @
                     [\<lparr>t_set_at = now, t_delay = 5000,
                       t_callback = Call_startCameraStreaming\<rparr>]\<rparr>)))"


section \<open>Post-connect setup\<close>

text \<open>
  \<open>onPrinterConnected(printerName)\<close>. Its first statements run at once; the rest
  runs after the awaited camera request and fetch, whose results are parameters.
\<close>

definition onPrinterConnected_begin :: "string option \<Rightarrow> server \<Rightarrow> server" where
  "onPrinterConnected_begin name st =
     st\<lparr>printerStatus := (printerStatus st)
          \<lparr>connected_flag := True,
           printerName := (if truthy_label name then the name
                           else printerName (printerStatus st))\<rparr>\<rparr>"

definition onPrinterConnected_rest :: "camera_reply \<Rightarrow> fetch_result \<Rightarrow> int \<Rightarrow> server \<Rightarrow> server" where
  "onPrinterConnected_rest reply fetched now st =
     (let st1 = setupCameraURL reply st;
          st2 = startCameraStreaming fetched now st1
      in broadcastToClients now (status_message st2) st2)"

text \<open>
  \<open>ensureReconnectSetup\<close> in its two halves. Entering checks and takes the guard flag
  and runs the synchronous start of \<open>onPrinterConnected\<close>; the result says whether the
  setup was started. Leaving is what \<open>try\<close>/\<open>catch\<close>/\<open>finally\<close> do once the awaited
  setup has settled (\<open>True\<close>: resolved, \<open>False\<close>: rejected).
\<close>

definition ensureReconnectSetup_enter :: "string option \<Rightarrow> server \<Rightarrow> bool \<times> server" where
  "ensureReconnectSetup_enter name st =
     (if reconnectSetupInProgress st then (False, st)
      else (True, onPrinterConnected_begin name (st\<lparr>reconnectSetupInProgress := True\<rparr>)))"

definition ensureReconnectSetup_leave :: "bool \<Rightarrow> server \<Rightarrow> server" where
  "ensureReconnectSetup_leave resolved st =
     st\<lparr>reconnectSetupNeeded := (\<not> resolved), reconnectSetupInProgress := False\<rparr>"

text \<open>The whole call when nothing else runs in between and the setup resolves.\<close>

definition ensureReconnectSetup ::
  "camera_reply \<Rightarrow> fetch_result \<Rightarrow> int \<Rightarrow> string option \<Rightarrow> server \<Rightarrow> server" where
  "ensureReconnectSetup reply fetched now name st =
     (case ensureReconnectSetup_enter name st of
        (False, st1) \<Rightarrow> st1
      | (True, st1) \<Rightarrow>
          ensureReconnectSetup_leave True (onPrinterConnected_rest reply fetched now st1))"

section \<open>Status updates\<close>

text \<open>\<open>x || 0\<close> on a number-or-undefined.\<close>

definition num_or_zero :: "rat option \<Rightarrow> rat" where
  "num_or_zero x = (case x of None \<Rightarrow> 0 | Some v \<Rightarrow> v)"

text \<open>\<open>Math.round\<close> rounds to the nearest integer, a half upwards.\<close>

definition Math_round :: "rat \<Rightarrow> int" where
  "Math_round x = \<lfloor>x + 1 / 2\<rfloor>"

text \<open>
  \<open>setCustomState(info)\<close>: code 1 when the first element of the \<open>CurrentStatus\<close>
  array is 1 and there is no file name. Indexing a bare number gives \<open>undefined\<close>.
\<close>

definition setCustomState :: "payload option \<Rightarrow> server \<Rightarrow> server" where
  "setCustomState info st =
     (case info of
        None \<Rightarrow> st
      | Some i \<Rightarrow>
          (case Status i of
             None \<Rightarrow> st
           | Some s \<Rightarrow>
               (let printingFirst =
                      (case CurrentStatus s of CS_array (x # _) \<Rightarrow> x = 1 | _ \<Rightarrow> False);
                    noFile =
                      (case PrintInfo s of None \<Rightarrow> True
                       | Some p \<Rightarrow> \<not> truthy_label (pi_Filename p));
                    code = (if printingFirst \<and> noFile then 1 else 0)
                in st\<lparr>printerStatus := (printerStatus st)\<lparr>customState := code\<rparr>\<rparr>)))"

text \<open>
  The block guarded by \<open>if (data.Status)\<close> that installs the parsed status. The
  retained label \<open>use_new_status\<close> decides only whether \<open>prev_status\<close> is recorded; the
  status object that is stored is the parsed one.
\<close>

definition applyParsedStatus :: "payload \<Rightarrow> printer_status \<Rightarrow> printer_status" where
  "applyParsedStatus d ps =
     (case parseStatusPayload (Some d) of
        (parsed, parsed_code) \<Rightarrow>
          (let new_consolidated = consolidated parsed;
               use_new_status =
                 (if new_consolidated = [] \<or> new_consolidated = ''UNKNOWN''
                  then consolidated (status ps) else new_consolidated);
               ps1 = (if consolidated (status ps) \<noteq> use_new_status
                      then ps\<lparr>prev_status := Some (consolidated (status ps))\<rparr> else ps)
           in ps1\<lparr>status := parsed, status_code := parsed_code,
                  state := State_code parsed_code\<rparr>))"

definition applyPrintInfo :: "print_info \<Rightarrow> printer_status \<Rightarrow> printer_status" where
  "applyPrintInfo p ps =
     (let newPrintTime = \<lfloor>num_or_zero (pi_CurrentTicks p)\<rfloor>;
          totalTicks = num_or_zero (pi_TotalTicks p)
      in ps\<lparr>progress := num_or_zero (pi_Progress p),
             currentFile := str_or (pi_Filename p) [],
             printTime := newPrintTime,
             remainingTime := \<lfloor>totalTicks - of_int newPrintTime\<rfloor>,
             layers := \<lparr>l_total = num_or_zero (pi_TotalLayer p), l_finished = None,
                        l_current = Some (num_or_zero (pi_CurrentLayer p))\<rparr>\<rparr>)"

text \<open>
  \<open>Math.round(v)\<close> of a temperature member that is not \<open>undefined\<close>; \<open>null\<close>
  converts to 0.
\<close>

definition round_member :: "temp_member \<Rightarrow> int option" where
  "round_member v =
     (case v of Temp_undefined \<Rightarrow> None | Temp_null \<Rightarrow> Some 0 | Temp_num x \<Rightarrow> Some (Math_round x))"

definition applyTemperatures :: "status_block \<Rightarrow> temperatures \<Rightarrow> temperatures" where
  "applyTemperatures s t =
     (let t1 = (case round_member (TempOfHotbed s) of None \<Rightarrow> t | Some v \<Rightarrow> t\<lparr>bed_current := v\<rparr>);
          t2 = (case round_member (TempTargetHotbed s) of None \<Rightarrow> t1 | Some v \<Rightarrow> t1\<lparr>bed_target := v\<rparr>);
          t3 = (case round_member (TempOfNozzle s) of None \<Rightarrow> t2 | Some v \<Rightarrow> t2\<lparr>nozzle_current := v\<rparr>);
          t4 = (case round_member (TempTargetNozzle s) of None \<Rightarrow> t3 | Some v \<Rightarrow> t3\<lparr>nozzle_target := v\<rparr>);
          t5 = (case round_member (TempOfBox s) of None \<Rightarrow> t4 | Some v \<Rightarrow> t4\<lparr>enclosure_current := v\<rparr>)
      in (case round_member (TempTargetBox s) of None \<Rightarrow> t5 | Some v \<Rightarrow> t5\<lparr>enclosure_target := v\<rparr>))"

text \<open>
  \<open>updatePrinterStatus(data)\<close> at clock reading \<open>now\<close>; \<open>None\<close> is a falsy
  \<open>data\<close>. A payload that arrives while the status says disconnected calls
  \<open>ensureReconnectSetup\<close>, whose synchronous half runs here.
\<close>

definition updatePrinterStatus :: "int \<Rightarrow> payload option \<Rightarrow> server \<Rightarrow> server" where
  "updatePrinterStatus now data st =
     (case data of
        None \<Rightarrow>
          (let st1 = st\<lparr>reconnectSetupNeeded := True,
                        printerStatus := (printerStatus st)
                          \<lparr>connected_flag := False, state := State_str ''Disconnected'',
                           cameraAvailable := False,
                           cameraError := Some ''Printer unreachable'',
                           lastUpdate := Some now, customState := 0\<rparr>\<rparr>
           in broadcastToClients now (status_message st1) st1)
      | Some d \<Rightarrow>
          (let attrName = (case Attributes d of None \<Rightarrow> None | Some a \<Rightarrow> attr_Name a);
               st1 = (if \<not> connected_flag (printerStatus st)
                      then snd (ensureReconnectSetup_enter
                                  (Some (str_or attrName (printerName (printerStatus st)))) st)
                      else st);
               st2 = st1\<lparr>printerStatus := (printerStatus st1)\<lparr>lastUpdate := Some now\<rparr>\<rparr>;
               st3 = (case Attributes d of
                        None \<Rightarrow> st2
                      | Some a \<Rightarrow>
                          st2\<lparr>printerStatus := (printerStatus st2)
                                \<lparr>printerName := str_or (attr_Name a)
                                                  (printerName (printerStatus st2))\<rparr>\<rparr>);
               st4 = (case Status d of
                        None \<Rightarrow> st3
                      | Some s \<Rightarrow>
                          st3\<lparr>printerStatus := applyParsedStatus d (printerStatus st3)\<rparr>);
               st5 = (case Status d of
                        None \<Rightarrow> st4
                      | Some s \<Rightarrow>
                          (let ps = (case PrintInfo s of
                                       None \<Rightarrow> printerStatus st4
                                     | Some p \<Rightarrow> applyPrintInfo p (printerStatus st4))
                           in st4\<lparr>printerStatus := ps,
                                  temperatures := applyTemperatures s (temperatures st4)\<rparr>));
               st6 = setCustomState data st5
           in broadcastToClients now (status_message st6) st6))"

text \<open>A run of status payloads, each with its clock reading.\<close>

definition statusUpdates :: "(int \<times> payload option) list \<Rightarrow> server \<Rightarrow> server" where
  "statusUpdates pushes st = foldl (\<lambda>s (now, data). updatePrinterStatus now data s) st pushes"

section \<open>Connecting and auto-connect\<close>

text \<open>
  What the device client does during one \<open>connectToPrinter\<close>: whether creating the
  client and registering its listeners raises (these statements stand before the
  \<open>try\<close>), whether \<open>connect()\<close> rejects, and the camera reply and fetch result of the
  post-connect setup.
\<close>

record attempt =
  client_setup_throws :: "string option"
  connect_rejects :: "string option"
  camera_reply :: camera_reply
  setup_fetch :: fetch_result
  followup_fetch :: fetch_result

text \<open>
  \<open>connectToPrinter(printerIP, printerName)\<close>: the first component is the exception
  the call ends with, if any. A rejected \<open>connect()\<close> is caught inside: the status is
  reset and broadcast, and the call returns normally.
\<close>

definition connectToPrinter ::
  "attempt \<Rightarrow> int \<Rightarrow> string \<Rightarrow> string option \<Rightarrow> server \<Rightarrow> string option \<times> server" where
  "connectToPrinter a now printerIP name st =
     (case client_setup_throws a of
        Some e \<Rightarrow> (Some e, st)
      | None \<Rightarrow>
          (let st1 = st\<lparr>printerClient := Some printerIP\<rparr> in
           case connect_rejects a of
             None \<Rightarrow> (None, ensureReconnectSetup (camera_reply a) (setup_fetch a) now name st1)
           | Some e \<Rightarrow>
               (let st2 = st1\<lparr>printerStatus := defaultPrinterStatus\<lparr>lastUpdate := Some now\<rparr>\<rparr>
                in (None, broadcastToClients now (status_message st2) st2))))"

text \<open>The \<open>reconnected\<close> listener registered by \<open>connectToPrinter\<close>, up to the await.\<close>

definition onReconnected :: "string option \<Rightarrow> server \<Rightarrow> server" where
  "onReconnected name st =
     (if \<not> reconnectSetupNeeded st then st else snd (ensureReconnectSetup_enter name st))"

definition schedule_autoConnect :: "int \<Rightarrow> server \<Rightarrow> server" where
  "schedule_autoConnect now st =
     st\<lparr>timers := timers st @ [\<lparr>t_set_at = now, t_delay = 5000, t_callback = Call_autoConnect\<rparr>]\<rparr>"

definition empty_autoConnectState :: auto_connect_state where
  "empty_autoConnectState = \<lparr>printers = [], currentIdx = 0, failCount = 0\<rparr>"

text \<open>
  The inner \<open>try\<close>/\<open>catch\<close> of \<open>autoConnect\<close>: one attempt on the candidate at the
  cursor. The cursor is in range here, by the test that precedes it.
\<close>

definition autoConnect_attempt :: "attempt \<Rightarrow> int \<Rightarrow> server \<Rightarrow> server" where
  "autoConnect_attempt a now st =
     (let printer = printers (autoConnectState st) ! currentIdx (autoConnectState st) in
      case connectToPrinter a now (address printer)
             (Some (str_or (d_Name printer) (str_or (d_Id printer) ''Elegoo Printer''))) st of
        (None, st1) \<Rightarrow>
          (let st2 = startCameraStreaming (followup_fetch a) now st1
           in st2\<lparr>autoConnectState := (autoConnectState st2)\<lparr>failCount := 0\<rparr>\<rparr>)
      | (Some err, st1) \<Rightarrow>
          (let acs = (autoConnectState st1)\<lparr>failCount := failCount (autoConnectState st1) + 1\<rparr> in
           if failCount acs \<ge> 3 then
             (let acs1 = acs\<lparr>currentIdx := currentIdx acs + 1, failCount := 0\<rparr> in
              if currentIdx acs1 \<ge> length (printers acs1)
              then schedule_autoConnect now (st1\<lparr>autoConnectState := empty_autoConnectState\<rparr>)
              else schedule_autoConnect now (st1\<lparr>autoConnectState := acs1\<rparr>))
           else schedule_autoConnect now (st1\<lparr>autoConnectState := acs\<rparr>)))"

text \<open>
  \<open>autoConnect()\<close>: \<open>discovery\<close> is what \<open>await discovery.discover(5000)\<close> gives,
  \<open>Inl\<close> when it rejects.
\<close>

definition autoConnect ::
  "string + discovered list \<Rightarrow> attempt \<Rightarrow> int \<Rightarrow> server \<Rightarrow> server" where
  "autoConnect discovery a now st =
     (if printers (autoConnectState st) = [] \<or>
         currentIdx (autoConnectState st) \<ge> length (printers (autoConnectState st))
      then
        (case discovery of
           Inl err \<Rightarrow> schedule_autoConnect now st
         | Inr found \<Rightarrow>
             (let eligible = filter (\<lambda>p. \<not> (Data_Attributes_Proxy p \<or> Attributes_Proxy p)) found in
              if eligible = [] then
                schedule_autoConnect now (st\<lparr>autoConnectState := empty_autoConnectState\<rparr>)
              else
                autoConnect_attempt a now
                  (st\<lparr>autoConnectState :=
                        \<lparr>printers = eligible, currentIdx = 0, failCount = 0\<rparr>\<rparr>)))
      else autoConnect_attempt a now st)"

section \<open>The media relay\<close>

definition minFrameInterval :: rat where
  "minFrameInterval = 1000 / of_nat MAX_FPS"

text \<open>
  \<open>cameraSubscribers.forEach(subscriber => subscriber(latestFrame))\<close>: a subscriber
  whose response stream raises on \<open>write\<close> deletes itself from the set; the others
  write the frame.
\<close>

definition dispatchFrame :: "bytes \<Rightarrow> camera_subscriber list \<Rightarrow> camera_subscriber list" where
  "dispatchFrame frame subs =
     map (\<lambda>s. s\<lparr>frames_written := frames_written s @ [frame]\<rparr>)
       (filter (\<lambda>s. \<not> res_throws s) subs)"

text \<open>
  What the read loop does with one parsed frame at clock reading \<open>now\<close>. The loop's
  own variable \<open>lastFrameTime\<close> travels with the server state.
\<close>

definition processFrame :: "int \<Rightarrow> bytes \<Rightarrow> int \<times> server \<Rightarrow> int \<times> server" where
  "processFrame now frameBuffer loop =
     (case loop of
        (lastFrameTime, st) \<Rightarrow>
          if length frameBuffer > 0 then
            if of_int (now - lastFrameTime) \<ge> minFrameInterval then
              (now, st\<lparr>latestFrame := Some frameBuffer,
                       cameraSubscribers := dispatchFrame frameBuffer (cameraSubscribers st)\<rparr>)
            else (lastFrameTime, st)
          else (lastFrameTime, st))"

text \<open>The frames one read loop parses, in order, each with the clock reading taken for it.\<close>

definition relayFrames :: "(int \<times> bytes) list \<Rightarrow> int \<times> server \<Rightarrow> int \<times> server" where
  "relayFrames parsed loop = foldl (\<lambda>l (now, frame). processFrame now frame l) loop parsed"

text \<open>
  \<open>buffer.indexOf(value, byteOffset)\<close> for a non-empty \<open>value\<close>: the first index
  at or after \<open>byteOffset\<close> where \<open>value\<close> occurs in the buffer; \<open>None\<close> is
  \<open>-1\<close>.
\<close>

definition indexOf :: "bytes \<Rightarrow> bytes \<Rightarrow> nat \<Rightarrow> nat option" where
  "indexOf buffer needle byteOffset =
     find (\<lambda>i. take (length needle) (drop i buffer) = needle) [byteOffset ..< length buffer]"

definition CRLFCRLF :: bytes where
  "CRLFCRLF = [13, 10, 13, 10]"

text \<open>
  The inner \<open>while\<close> of the read loop, on the accumulated buffer: find a boundary,
  the end of the part headers after it and the next boundary; the bytes between, less
  one trailing line terminator, are the frame; then drop the buffer up to the next
  boundary and look again. \<open>boundaryBuffer\<close> is \<open>'--'\<close> followed by the boundary
  token of the response. \<open>Date.now()\<close> is read once for every non-empty frame:
  \<open>clock k\<close> is the \<open>k\<close>-th reading the loop takes, and the count of readings
  taken so far travels with the buffer and \<open>lastFrameTime\<close>. The next boundary lies
  at least four bytes into the buffer, so the buffer shrinks with every frame.
\<close>

function scanFrames ::
  "bytes \<Rightarrow> (nat \<Rightarrow> int) \<Rightarrow> bytes \<times> nat \<times> int \<times> server \<Rightarrow> bytes \<times> nat \<times> int \<times> server" where
  "scanFrames boundaryBuffer clock (buffer, k, lastFrameTime, st) =
     (case indexOf buffer boundaryBuffer 0 of
        None \<Rightarrow> (buffer, k, lastFrameTime, st)
      | Some boundaryIndex \<Rightarrow>
          (case indexOf buffer CRLFCRLF (boundaryIndex + length boundaryBuffer) of
             None \<Rightarrow> (buffer, k, lastFrameTime, st)
           | Some headersEnd \<Rightarrow>
               (case indexOf buffer boundaryBuffer (headersEnd + 4) of
                  None \<Rightarrow> (buffer, k, lastFrameTime, st)
                | Some nextBoundaryIndex \<Rightarrow>
                    (let frameDataStart = headersEnd + 4;
                         frameEnd =
                           (if buffer ! (nextBoundaryIndex - 2) = 13 \<and>
                               buffer ! (nextBoundaryIndex - 1) = 10
                            then nextBoundaryIndex - 2
                            else if buffer ! (nextBoundaryIndex - 1) = 10
                            then nextBoundaryIndex - 1 else nextBoundaryIndex);
                         frameBuffer = take (frameEnd - frameDataStart) (drop frameDataStart buffer);
                         k1 = (if length frameBuffer > 0 then k + 1 else k);
                         loop1 = (if length frameBuffer > 0
                                  then processFrame (clock k) frameBuffer (lastFrameTime, st)
                                  else (lastFrameTime, st))
                     in scanFrames boundaryBuffer clock
                          (drop nextBoundaryIndex buffer, k1, fst loop1, snd loop1)))))"
  by pat_completeness auto
termination
  apply (relation "measure (\<lambda>(b, c, buffer, k, l, s). length buffer)")
   apply simp
  apply (auto simp add: indexOf_def find_Some_iff)
  done

declare scanFrames.simps [simp del]

text \<open>
  One turn of the outer loop: the chunk just read is appended to the buffer and the
  buffer is scanned. The read loop is that, chunk after chunk.
\<close>

definition readChunk ::
  "bytes \<Rightarrow> (nat \<Rightarrow> int) \<Rightarrow> bytes \<Rightarrow> bytes \<times> nat \<times> int \<times> server \<Rightarrow>
   bytes \<times> nat \<times> int \<times> server" where
  "readChunk boundaryBuffer clock chunk loop =
     (case loop of (buffer, k, lastFrameTime, st) \<Rightarrow>
        scanFrames boundaryBuffer clock (buffer @ chunk, k, lastFrameTime, st))"

definition readLoop ::
  "bytes \<Rightarrow> (nat \<Rightarrow> int) \<Rightarrow> bytes list \<Rightarrow> bytes \<times> nat \<times> int \<times> server \<Rightarrow>
   bytes \<times> nat \<times> int \<times> server" where
  "readLoop boundaryBuffer clock chunks loop =
     foldl (\<lambda>l chunk. readChunk boundaryBuffer clock chunk l) loop chunks"

text \<open>
  \<open>GET /api/camera\<close>: after the opening boundary line is written to the response,
  the new subscriber closure joins the set, is called with the cached frame if there is
  one, and the user statistics are broadcast. \<open>new_id\<close> is the identity of the new
  closure.
\<close>

definition cameraAttach :: "nat \<Rightarrow> int \<Rightarrow> server \<Rightarrow> server" where
  "cameraAttach new_id now st =
     (let subscriber = \<lparr>sub_id = new_id, res_throws = False, frames_written = []\<rparr>;
          st1 = st\<lparr>cameraSubscribers := cameraSubscribers st @ [subscriber]\<rparr>;
          st2 = (case latestFrame st1 of
                   None \<Rightarrow> st1
                 | Some frame \<Rightarrow>
                     st1\<lparr>cameraSubscribers := cameraSubscribers st @
                           [subscriber\<lparr>frames_written := frames_written subscriber @ [frame]\<rparr>]\<rparr>)
      in broadcastToClients now (status_message st2) st2)"

definition subscriber_frames :: "nat \<Rightarrow> server \<Rightarrow> bytes list option" where
  "subscriber_frames i st =
     map_option frames_written (find (\<lambda>s. sub_id s = i) (cameraSubscribers st))"

section \<open>Event sequences and scenarios\<close>

text \<open>
  The two events around one post-connect setup: a call of \<open>ensureReconnectSetup\<close>,
  and the settling of the setup it awaits. The number beside the server state counts
  the setups that have started and not yet settled; a settle event needs one.
\<close>

datatype setup_event = Trigger "string option" | Settle bool

fun setup_step :: "server \<times> nat \<Rightarrow> setup_event \<Rightarrow> server \<times> nat" where
  "setup_step (st, running) (Trigger name) =
     (case ensureReconnectSetup_enter name st of
        (entered, st1) \<Rightarrow> (st1, if entered then running + 1 else running))"
| "setup_step (st, running) (Settle resolved) =
     (if running = 0 then (st, running)
      else (ensureReconnectSetup_leave resolved st, running - 1))"

definition setup_run :: "setup_event list \<Rightarrow> server \<times> nat \<Rightarrow> server \<times> nat" where
  "setup_run events s = foldl setup_step s events"

definition guard_agrees :: "server \<times> nat \<Rightarrow> bool" where
  "guard_agrees s = (snd s = (if reconnectSetupInProgress (fst s) then 1 else 0))"

text \<open>The test at the head of \<open>setDisconnectedStatus\<close>.\<close>

definition disconnected_shape :: "printer_status \<Rightarrow> bool" where
  "disconnected_shape ps =
     (connected_flag ps = False \<and> printerName ps = ''Unknown'' \<and>
      state ps = State_str ''Disconnected'')"

text \<open>
  Subscriber \<open>i\<close> is in the set, its stream does not raise, and the first frame it
  wrote is \<open>frame\<close>.
\<close>

definition attached_with :: "nat \<Rightarrow> bytes \<Rightarrow> server \<Rightarrow> bool" where
  "attached_with i frame st =
     (case find (\<lambda>s. sub_id s = i) (cameraSubscribers st) of
        None \<Rightarrow> False
      | Some s0 \<Rightarrow> \<not> res_throws s0 \<and>
          (case frames_written s0 of [] \<Rightarrow> False | f # _ \<Rightarrow> f = frame))"

text \<open>
  Between the loop states \<open>before\<close> and \<open>after\<close> the read loop has handled exactly
  the frames \<open>parsed\<close>: its \<open>lastFrameTime\<close> and the server state are those of
  \<open>relayFrames parsed\<close>, the frames are non-empty, and their times are the clock
  readings taken in between, in order.
\<close>

definition relays ::
  "(nat \<Rightarrow> int) \<Rightarrow> bytes \<times> nat \<times> int \<times> server \<Rightarrow> bytes \<times> nat \<times> int \<times> server \<Rightarrow>
   (int \<times> bytes) list \<Rightarrow> bool" where
  "relays clock before after parsed =
     (case before of (buffer, k, lastFrameTime, st) \<Rightarrow>
      case after of (buffer', k', lastFrameTime', st') \<Rightarrow>
        (lastFrameTime', st') = relayFrames parsed (lastFrameTime, st) \<and>
        k \<le> k' \<and> map fst parsed = map clock [k ..< k'] \<and>
        (\<forall>f \<in> set (map snd parsed). f \<noteq> []))"

text \<open>
  A multipart stream with the boundary token \<open>f\<close>: two parts with the bodies
  \<open>[1, 2]\<close> and \<open>[3]\<close>, each after the header line \<open>A: b\<close>, then a closing
  boundary.
\<close>

definition sample_boundary :: bytes where
  "sample_boundary = [45, 45, 102]"

definition sample_stream :: bytes where
  "sample_stream =
     sample_boundary @ [13, 10, 65, 58, 32, 98] @ CRLFCRLF @ [1, 2] @ [13, 10] @
     sample_boundary @ [13, 10, 65, 58, 32, 98] @ CRLFCRLF @ [3] @ [13, 10] @
     sample_boundary"

text \<open>
  What can be seen of a fatal restart: the pending timers that exit the process, and for
  each web client its \<open>readyState\<close> with the \<open>server_restarting\<close> notices it has
  been sent.
\<close>

definition exit_timers :: "server \<Rightarrow> timer list" where
  "exit_timers st = filter (\<lambda>t. t_callback t = Process_exit) (timers st)"

definition restart_notices :: "server \<Rightarrow> (nat \<times> message list) list" where
  "restart_notices st =
     map (\<lambda>c. (readyState c, filter (\<lambda>m. msg_type m = ''server_restarting'') (received c)))
       (webClients st)"


text \<open>The device reports \<open>CurrentStatus = [1]\<close> and \<open>PrintInfo.Status = 13\<close>.\<close>

definition recovery_scenario :: payload where
  "recovery_scenario =
     \<lparr>Attributes = None,
      Status = Some (empty_status_block
        \<lparr>CurrentStatus := CS_array [1],
         PrintInfo := Some \<lparr>pi_Status = Some 13, pi_Progress = None, pi_Filename = None,
                            pi_CurrentTicks = None, pi_TotalTicks = None, pi_TotalLayer = None,
                            pi_CurrentLayer = None\<rparr>\<rparr>)\<rparr>"

text \<open>\<open>{Status: {CurrentStatus: [1]}}\<close> and \<open>{Status: {CurrentStatus: [99]}}\<close>.\<close>

definition printing_payload :: payload where
  "printing_payload =
     \<lparr>Attributes = None, Status = Some (empty_status_block\<lparr>CurrentStatus := CS_array [1]\<rparr>)\<rparr>"

definition unmapped_payload :: payload where
  "unmapped_payload =
     \<lparr>Attributes = None, Status = Some (empty_status_block\<lparr>CurrentStatus := CS_array [99]\<rparr>)\<rparr>"

text \<open>A server with one open web client, and three status messages that differ.\<close>

definition one_client_server :: server where
  "one_client_server = (initial_server None)\<lparr>webClients := [\<lparr>readyState = 1, received = []\<rparr>]\<rparr>"

definition status_A :: message where
  "status_A = \<lparr>msg_type = ''status'',
               msg_body = Status_body defaultPrinterStatus defaultTemperatures\<rparr>"

definition status_B :: message where
  "status_B = \<lparr>msg_type = ''status'',
               msg_body = Status_body (defaultPrinterStatus\<lparr>progress := 50\<rparr>) defaultTemperatures\<rparr>"

definition status_C :: message where
  "status_C = \<lparr>msg_type = ''status'',
               msg_body = Status_body (defaultPrinterStatus\<lparr>progress := 75\<rparr>) defaultTemperatures\<rparr>"

text \<open>One discovered printer that is no proxy, and an attempt whose \<open>connect()\<close> rejects.\<close>

definition unreachable_printer :: discovered where
  "unreachable_printer =
     \<lparr>address = ''192.168.1.50'', d_Name = Some ''Centauri Carbon'', d_Id = None,
      Data_Attributes_Proxy = False, Attributes_Proxy = False\<rparr>"

definition connect_fails :: attempt where
  "connect_fails =
     \<lparr>client_setup_throws = None, connect_rejects = Some ''Connection timeout'',
      camera_reply = Camera_no_data, setup_fetch = Fetch_ok, followup_fetch = Fetch_ok\<rparr>"

text \<open>
  The one-client server with a deferred send of \<open>status_A\<close> pending, set at 100 for
  900 ms later.
\<close>

definition pending_server :: server where
  "pending_server =
     one_client_server
       \<lparr>pendingBroadcast := True,
        timers := [\<lparr>t_set_at = 100, t_delay = 900, t_callback = Deferred_send status_A\<rparr>]\<rparr>"



text \<open>A server with one camera subscriber and a cached frame.\<close>

definition one_subscriber_server :: server where
  "one_subscriber_server =
     (initial_server None)
       \<lparr>cameraSubscribers := [\<lparr>sub_id = 1, res_throws = False, frames_written = []\<rparr>],
        latestFrame := Some [255, 216]\<rparr>"

text \<open>A server whose printer is connected.\<close>

definition connected_server :: server where
  "connected_server =
     (initial_server None)
       \<lparr>printerStatus := defaultPrinterStatus
          \<lparr>connected_flag := True, printerName := ''Centauri Carbon''\<rparr>\<rparr>"

section \<open>Frame lemmas for the broadcast gate\<close>

lemma broadcastToClients_frame [simp]:
  "printerStatus (broadcastToClients now m st) = printerStatus st"
  "temperatures (broadcastToClients now m st) = temperatures st"
  "reconnectSetupInProgress (broadcastToClients now m st) = reconnectSetupInProgress st"
  "reconnectSetupNeeded (broadcastToClients now m st) = reconnectSetupNeeded st"
  "printerClient (broadcastToClients now m st) = printerClient st"
  "cameraStreamURL (broadcastToClients now m st) = cameraStreamURL st"
  "printerStream (broadcastToClients now m st) = printerStream st"
  "cameraSubscribers (broadcastToClients now m st) = cameraSubscribers st"
  "latestFrame (broadcastToClients now m st) = latestFrame st"
  "cameraStartFailure (broadcastToClients now m st) = cameraStartFailure st"
  "autoConnectState (broadcastToClients now m st) = autoConnectState st"
  "WS_UPDATE_INTERVAL (broadcastToClients now m st) = WS_UPDATE_INTERVAL st"
  by (simp_all add: broadcastToClients_def Let_def)

lemma broadcastToClients_urgent_eq:
  "msg_type m = ''server_restarting'' \<Longrightarrow>
   broadcastToClients now m st =
     st\<lparr>webClients := send_to_open m (webClients st), lastBroadcastTime := now\<rparr>"
  by (simp add: broadcastToClients_def Let_def)

lemma send_to_open_nth:
  "i < length cs \<Longrightarrow> readyState (cs ! i) = WebSocket_OPEN \<Longrightarrow>
   received (send_to_open m cs ! i) = received (cs ! i) @ [m]"
  by (simp add: send_to_open_def)

lemma runDueSends_single:
  "timers st = [\<lparr>t_set_at = t0, t_delay = dl, t_callback = Deferred_send d\<rparr>] \<Longrightarrow>
   t0 + dl \<le> T \<Longrightarrow>
   runDueSends T st = deferredSend T d (st\<lparr>timers := []\<rparr>)"
  by (simp add: runDueSends_def is_due_send_def run_send_def)

section \<open>The status projector: printing recovery\<close>

lemma recovery_scenario_labels:
  "(let r = fst (parseStatusPayload (Some recovery_scenario)) in
      consolidated r = ''PRINTING'' \<and> sc_state (machine r) = ''PRINTING'' \<and>
      sc_state (job r) = ''PRINTING'')"
  by (simp add: parseStatusPayload_def recovery_scenario_def empty_status_block_def
        machineStatusCode_of_def jobStatusCode_of_def mapMachineStatusIntToLabel_def
        mapJobStatusIntToLabel_def str_or_def truthy_label_def MACHINE_STATUS_LABELS_def
        MACHINE_STATUS_PRINTING_RECOVERY_def JOB_STATUS_PRINTING_RECOVERY_def Let_def)

text \<open>
  Claim C4. A payload whose job code \<open>PrintInfo.Status\<close> is 13 (printing recovery) is
  projected to the consolidated label \<open>PRINTING\<close> and the job label \<open>PRINTING\<close>,
  whatever its \<open>CurrentStatus\<close> is; and the payload with \<open>CurrentStatus = [1]\<close> and
  \<open>PrintInfo.Status = 13\<close> gives consolidated, machine and job label \<open>PRINTING\<close>.
\<close>

theorem parseStatusPayload_printing_recovery:
  assumes "Status d = Some s" and "PrintInfo s = Some p" and "pi_Status p = Some 13"
  shows "consolidated (fst (parseStatusPayload (Some d))) = ''PRINTING'' \<and>
         sc_state (job (fst (parseStatusPayload (Some d)))) = ''PRINTING'' \<and>
         (let r = fst (parseStatusPayload (Some recovery_scenario)) in
          consolidated r = ''PRINTING'' \<and> sc_state (machine r) = ''PRINTING'' \<and>
          sc_state (job r) = ''PRINTING'')"
  using assms recovery_scenario_labels
  by (simp add: parseStatusPayload_def jobStatusCode_of_def mapJobStatusIntToLabel_def
        str_or_def JOB_STATUS_PRINTING_RECOVERY_def Let_def)

theorem parseStatusPayload_printing_recovery_witness:
  "consolidated (fst (parseStatusPayload (Some
      \<lparr>Attributes = None,
       Status = Some (empty_status_block
         \<lparr>CurrentStatus := CS_array [0],
          PrintInfo := Some \<lparr>pi_Status = Some 13, pi_Progress = None, pi_Filename = None,
                             pi_CurrentTicks = None, pi_TotalTicks = None,
                             pi_TotalLayer = None, pi_CurrentLayer = None\<rparr>\<rparr>)\<rparr>))) = ''PRINTING''"
  using parseStatusPayload_printing_recovery
    [of "\<lparr>Attributes = None,
          Status = Some (empty_status_block
            \<lparr>CurrentStatus := CS_array [0],
             PrintInfo := Some \<lparr>pi_Status = Some 13, pi_Progress = None, pi_Filename = None,
                                pi_CurrentTicks = None, pi_TotalTicks = None,
                                pi_TotalLayer = None, pi_CurrentLayer = None\<rparr>\<rparr>)\<rparr>"
        "empty_status_block
            \<lparr>CurrentStatus := CS_array [0],
             PrintInfo := Some \<lparr>pi_Status = Some 13, pi_Progress = None, pi_Filename = None,
                                pi_CurrentTicks = None, pi_TotalTicks = None,
                                pi_TotalLayer = None, pi_CurrentLayer = None\<rparr>\<rparr>"
        "\<lparr>pi_Status = Some 13, pi_Progress = None, pi_Filename = None,
          pi_CurrentTicks = None, pi_TotalTicks = None,
          pi_TotalLayer = None, pi_CurrentLayer = None\<rparr>"]
  by simp

section \<open>Status updates: the consolidated label\<close>

lemma applyPrintInfo_status [simp]: "status (applyPrintInfo p ps) = status ps"
  by (simp add: applyPrintInfo_def Let_def)

lemma applyParsedStatus_status [simp]:
  "status (applyParsedStatus d ps) = fst (parseStatusPayload (Some d))"
  by (simp add: applyParsedStatus_def Let_def split: prod.splits)

lemma setCustomState_status [simp]:
  "status (printerStatus (setCustomState info st)) = status (printerStatus st)"
  by (simp add: setCustomState_def Let_def split: option.splits)

text \<open>
  Whatever the status was before, a payload with a \<open>Status\<close> block leaves the parsed
  status object in \<open>printerStatus.status\<close>, its consolidated label included.
\<close>

lemma updatePrinterStatus_status:
  "Status d = Some s \<Longrightarrow>
   status (printerStatus (updatePrinterStatus now (Some d) st)) = fst (parseStatusPayload (Some d))"
  by (simp add: updatePrinterStatus_def Let_def split: option.splits)

lemma parse_printing_payload:
  "consolidated (fst (parseStatusPayload (Some printing_payload))) = ''PRINTING''"
  by (simp add: parseStatusPayload_def printing_payload_def empty_status_block_def
        machineStatusCode_of_def jobStatusCode_of_def mapMachineStatusIntToLabel_def
        str_or_def truthy_label_def MACHINE_STATUS_LABELS_def
        MACHINE_STATUS_PRINTING_RECOVERY_def JOB_STATUS_PRINTING_RECOVERY_def Let_def)

lemma parse_unmapped_payload:
  "consolidated (fst (parseStatusPayload (Some unmapped_payload))) = ''UNKNOWN''"
  by (simp add: parseStatusPayload_def unmapped_payload_def empty_status_block_def
        machineStatusCode_of_def jobStatusCode_of_def mapMachineStatusIntToLabel_def
        str_or_def truthy_label_def MACHINE_STATUS_LABELS_def
        MACHINE_STATUS_PRINTING_RECOVERY_def JOB_STATUS_PRINTING_RECOVERY_def Let_def)

text \<open>
  Claim C1, evaluated on the code. After the payload \<open>{Status: {CurrentStatus: [1]}}\<close>
  the consolidated label is \<open>PRINTING\<close>; the next payload
  \<open>{Status: {CurrentStatus: [99]}}\<close>, whose code is in no table, leaves it at
  \<open>UNKNOWN\<close>: the prior valid label is not retained.
\<close>

theorem updatePrinterStatus_regresses_to_unknown:
  "consolidated (status (printerStatus
      (updatePrinterStatus 1000 (Some printing_payload) (initial_server None)))) = ''PRINTING'' \<and>
   consolidated (status (printerStatus
      (statusUpdates [(1000, Some printing_payload), (3000, Some unmapped_payload)]
         (initial_server None)))) = ''UNKNOWN''"
proof -
  have p: "Status printing_payload = Some (empty_status_block\<lparr>CurrentStatus := CS_array [1]\<rparr>)"
    by (simp add: printing_payload_def)
  have u: "Status unmapped_payload = Some (empty_status_block\<lparr>CurrentStatus := CS_array [99]\<rparr>)"
    by (simp add: unmapped_payload_def)
  show ?thesis
    by (simp add: statusUpdates_def updatePrinterStatus_status [OF p]
          updatePrinterStatus_status [OF u] parse_printing_payload parse_unmapped_payload)
qed

section \<open>The broadcast gate: urgent messages\<close>

text \<open>
  Claim C6. A \<open>server_restarting\<close> message is sent to every open client in the call
  itself, whatever the time since the last send; \<open>lastBroadcastTime\<close> becomes the
  time of the call and nothing else changes, so a pending deferred send stays pending.
  When that deferred send fires later, each open client has received the urgent message
  first and the deferred one after it.
\<close>

theorem broadcastToClients_urgent:
  assumes "msg_type m = ''server_restarting''"
  shows "broadcastToClients now m st =
           st\<lparr>webClients := send_to_open m (webClients st), lastBroadcastTime := now\<rparr> \<and>
         (\<forall>i < length (webClients st).
            readyState (webClients st ! i) = WebSocket_OPEN \<longrightarrow>
            received (webClients (broadcastToClients now m st) ! i) =
              received (webClients st ! i) @ [m]) \<and>
         (timers st = [\<lparr>t_set_at = t0, t_delay = dl, t_callback = Deferred_send d\<rparr>] \<and>
          t0 + dl \<le> T \<longrightarrow>
            webClients (runDueSends T (broadcastToClients now m st)) =
              send_to_open d (send_to_open m (webClients st)))"
proof -
  have eq: "broadcastToClients now m st =
           st\<lparr>webClients := send_to_open m (webClients st), lastBroadcastTime := now\<rparr>"
    using assms by (rule broadcastToClients_urgent_eq)
  have nth: "\<forall>i < length (webClients st).
            readyState (webClients st ! i) = WebSocket_OPEN \<longrightarrow>
            received (webClients (broadcastToClients now m st) ! i) =
              received (webClients st ! i) @ [m]"
    by (simp add: eq send_to_open_nth)
  have after: "timers st = [\<lparr>t_set_at = t0, t_delay = dl, t_callback = Deferred_send d\<rparr>] \<and>
          t0 + dl \<le> T \<longrightarrow>
            webClients (runDueSends T (broadcastToClients now m st)) =
              send_to_open d (send_to_open m (webClients st))"
  proof
    assume h: "timers st = [\<lparr>t_set_at = t0, t_delay = dl, t_callback = Deferred_send d\<rparr>] \<and>
          t0 + dl \<le> T"
    have "timers (broadcastToClients now m st) =
            [\<lparr>t_set_at = t0, t_delay = dl, t_callback = Deferred_send d\<rparr>]"
      using h by (simp add: eq)
    then have "runDueSends T (broadcastToClients now m st) =
                 deferredSend T d ((broadcastToClients now m st)\<lparr>timers := []\<rparr>)"
      using h by (simp add: runDueSends_single)
    then show "webClients (runDueSends T (broadcastToClients now m st)) =
              send_to_open d (send_to_open m (webClients st))"
      by (simp add: eq deferredSend_def)
  qed
  from eq nth after show ?thesis by blast
qed

theorem broadcastToClients_urgent_witness:
  "webClients (broadcastToClients 500 (restarting_message ''fetch failed'') pending_server) =
     [\<lparr>readyState = 1, received = [restarting_message ''fetch failed'']\<rparr>] \<and>
   webClients (runDueSends 1000
      (broadcastToClients 500 (restarting_message ''fetch failed'') pending_server)) =
     [\<lparr>readyState = 1, received = [restarting_message ''fetch failed'', status_A]\<rparr>]"
proof -
  have h: "msg_type (restarting_message ''fetch failed'') = ''server_restarting''"
    by (simp add: restarting_message_def)
  have t: "timers pending_server =
             [\<lparr>t_set_at = 100, t_delay = 900, t_callback = Deferred_send status_A\<rparr>]"
    by (simp add: pending_server_def)
  have w: "webClients pending_server = [\<lparr>readyState = 1, received = []\<rparr>]"
    by (simp add: pending_server_def one_client_server_def)
  note inst = broadcastToClients_urgent [OF h, where st = pending_server and now = 500 and
      ?t0.0 = 100 and dl = 900 and d = status_A and T = 1000]
  have sent: "webClients (broadcastToClients 500 (restarting_message ''fetch failed'') pending_server) =
      send_to_open (restarting_message ''fetch failed'') (webClients pending_server)"
    by (simp add: inst [THEN conjunct1])
  have fired: "webClients (runDueSends 1000
      (broadcastToClients 500 (restarting_message ''fetch failed'') pending_server)) =
      send_to_open status_A
        (send_to_open (restarting_message ''fetch failed'') (webClients pending_server))"
    by (rule inst [THEN conjunct2, THEN conjunct2, THEN mp]) (simp add: t)
  show ?thesis
    unfolding sent fired by (simp add: w send_to_open_def WebSocket_OPEN_def)
qed

section \<open>The broadcast gate: bursts\<close>

lemma burst_rest_noop:
  "pendingBroadcast st \<Longrightarrow>
   \<forall>(t, m) \<in> set calls. msg_type m \<noteq> ''server_restarting'' \<and>
       t - lastBroadcastTime st < WS_UPDATE_INTERVAL st \<Longrightarrow>
   broadcastBurst calls st = st"
proof (induction calls)
  case Nil
  then show ?case by (simp add: broadcastBurst_def)
next
  case (Cons c calls)
  obtain t m where c: "c = (t, m)" by (cases c)
  have "broadcastToClients t m st = st"
    using Cons.prems c by (simp add: broadcastToClients_def Let_def)
  then have "broadcastBurst (c # calls) st = broadcastBurst calls st"
    by (simp add: broadcastBurst_def c)
  then show ?case using Cons by simp
qed

lemma burst_first:
  assumes "\<not> pendingBroadcast st"
    and "\<forall>(t, m) \<in> set ((t1, m1) # later). msg_type m \<noteq> ''server_restarting'' \<and>
           t - lastBroadcastTime st < WS_UPDATE_INTERVAL st"
  shows "broadcastBurst ((t1, m1) # later) st =
           st\<lparr>pendingBroadcast := True,
              timers := timers st @
                [\<lparr>t_set_at = t1, t_delay = WS_UPDATE_INTERVAL st - (t1 - lastBroadcastTime st),
                  t_callback = Deferred_send m1\<rparr>]\<rparr>"
proof -
  let ?st1 = "st\<lparr>pendingBroadcast := True,
              timers := timers st @
                [\<lparr>t_set_at = t1, t_delay = WS_UPDATE_INTERVAL st - (t1 - lastBroadcastTime st),
                  t_callback = Deferred_send m1\<rparr>]\<rparr>"
  have first: "broadcastToClients t1 m1 st = ?st1"
    using assms by (simp add: broadcastToClients_def Let_def)
  have "broadcastBurst ((t1, m1) # later) st = broadcastBurst later ?st1"
    by (simp add: broadcastBurst_def first)
  also have "\<dots> = ?st1"
    using assms by (intro burst_rest_noop) auto
  finally show ?thesis .
qed

lemma burst_AB:
  "webClients (runDueSends 1000 (broadcastBurst [(100, status_A), (200, status_B)] one_client_server))
     = [\<lparr>readyState = 1, received = [status_A]\<rparr>]"
  by (simp add: broadcastBurst_def broadcastToClients_def one_client_server_def initial_server_def
        status_A_def status_B_def WS_UPDATE_INTERVAL_of_env_def runDueSends_def is_due_send_def
        run_send_def deferredSend_def send_to_open_def WebSocket_OPEN_def Let_def)

text \<open>
  Claim C3 as stated fails. After a send at time 0 and with an interval of 1000 ms, the
  calls with \<open>status_A\<close> at 100 and \<open>status_B\<close> at 200 are followed by the deferred
  send at 1000: what the client has then received is not the message of the last call.
\<close>

theorem broadcastBurst_last_counterexample:
  "received (hd (webClients (runDueSends 1000
      (broadcastBurst [(100, status_A), (200, status_B)] one_client_server)))) \<noteq> [status_B]"
proof -
  have "status_A \<noteq> status_B"
    by (simp add: status_A_def status_B_def defaultPrinterStatus_def)
  then show ?thesis
    by (simp add: burst_AB)
qed

subsection \<open>The event loop during and after a burst\<close>

lemma is_due_send_mono: "is_due_send T' t \<Longrightarrow> T' \<le> T \<Longrightarrow> is_due_send T t"
  by (auto simp add: is_due_send_def split: timer_callback.splits)

lemma no_due_earlier:
  "filter (is_due_send T) ts = [] \<Longrightarrow> T' \<le> T \<Longrightarrow> filter (is_due_send T') ts = []"
  by (auto simp add: filter_empty_conv dest: is_due_send_mono)

lemma runDueSends_none:
  assumes "filter (is_due_send T) (timers st) = []"
  shows "runDueSends T st = st"
proof -
  have "filter (\<lambda>t. \<not> is_due_send T t) (timers st) = timers st"
    using assms by (simp add: filter_empty_conv)
  then show ?thesis
    using assms by (simp add: runDueSends_def)
qed

lemma live_rest_noop:
  "pendingBroadcast st \<Longrightarrow>
   \<forall>(t, m) \<in> set calls. filter (is_due_send t) (timers st) = [] \<and>
       msg_type m \<noteq> ''server_restarting'' \<and>
       t - lastBroadcastTime st < WS_UPDATE_INTERVAL st \<Longrightarrow>
   broadcastBurstLive calls st = st"
proof (induction calls)
  case Nil
  then show ?case by (simp add: broadcastBurstLive_def)
next
  case (Cons c calls)
  obtain t m where c: "c = (t, m)" by (cases c)
  have idle: "runDueSends t st = st"
    using Cons.prems c by (intro runDueSends_none) simp
  have "broadcastToClients t m st = st"
    using Cons.prems c by (simp add: broadcastToClients_def Let_def)
  then have "broadcastBurstLive (c # calls) st = broadcastBurstLive calls st"
    by (simp add: broadcastBurstLive_def c idle)
  then show ?case using Cons by simp
qed

text \<open>
  Claim C3, amended. With no deferred send pending, take a burst of non-urgent calls that
  all fall within one throttle interval after the last send. During the burst nothing is
  sent, also when the event loop runs between the calls, and the only change is one
  deferred send: set by the first call, with the message of the first call, and with the
  delay that is left of the interval, so that it is due exactly one interval after the
  last send. It does not fire before that. When it fires, every open client receives
  exactly one message, the message of the first call of the burst; the later calls leave
  no trace.
\<close>

theorem broadcastBurst_coalesces_to_first:
  assumes "\<not> pendingBroadcast st"
    and "filter (is_due_send T) (timers st) = []"
    and "\<forall>(t, m) \<in> set ((t1, m1) # later). msg_type m \<noteq> ''server_restarting'' \<and>
           t - lastBroadcastTime st < WS_UPDATE_INTERVAL st"
    and "lastBroadcastTime st + WS_UPDATE_INTERVAL st \<le> T"
  shows "broadcastBurstLive ((t1, m1) # later) st =
           st\<lparr>pendingBroadcast := True,
              timers := timers st @
                [\<lparr>t_set_at = t1, t_delay = WS_UPDATE_INTERVAL st - (t1 - lastBroadcastTime st),
                  t_callback = Deferred_send m1\<rparr>]\<rparr> \<and>
         broadcastBurst ((t1, m1) # later) st = broadcastBurstLive ((t1, m1) # later) st \<and>
         (\<forall>T'. T' < lastBroadcastTime st + WS_UPDATE_INTERVAL st \<longrightarrow>
            runDueSends T' (broadcastBurstLive ((t1, m1) # later) st) =
              broadcastBurstLive ((t1, m1) # later) st) \<and>
         runDueSends T (broadcastBurstLive ((t1, m1) # later) st) =
           st\<lparr>webClients := send_to_open m1 (webClients st), lastBroadcastTime := T\<rparr>"
proof -
  let ?tm = "\<lparr>t_set_at = t1, t_delay = WS_UPDATE_INTERVAL st - (t1 - lastBroadcastTime st),
                  t_callback = Deferred_send m1\<rparr>"
  let ?q = "st\<lparr>pendingBroadcast := True, timers := timers st @ [?tm]\<rparr>"
  have early: "filter (is_due_send T') (timers ?q) = []"
    if "T' < lastBroadcastTime st + WS_UPDATE_INTERVAL st" for T'
  proof -
    have "filter (is_due_send T') (timers st) = []"
      using assms(2) by (rule no_due_earlier) (use that assms(4) in simp)
    moreover have "\<not> is_due_send T' ?tm"
      using that by (simp add: is_due_send_def)
    ultimately show ?thesis by simp
  qed
  have in_time: "t < lastBroadcastTime st + WS_UPDATE_INTERVAL st"
    if "(t, m) \<in> set ((t1, m1) # later)" for t m
    using assms(3) that by fastforce
  have b: "broadcastBurst ((t1, m1) # later) st = ?q"
    using assms(1,3) by (rule burst_first)
  have idle1: "runDueSends t1 st = st"
  proof (rule runDueSends_none)
    have "t1 \<le> T" using in_time [of t1 m1] assms(4) by simp
    with assms(2) show "filter (is_due_send t1) (timers st) = []"
      by (rule no_due_earlier)
  qed
  have first: "broadcastToClients t1 m1 st = ?q"
    using assms(1,3) by (simp add: broadcastToClients_def Let_def)
  have "broadcastBurstLive ((t1, m1) # later) st = broadcastBurstLive later ?q"
    by (simp add: broadcastBurstLive_def idle1 first)
  also have "\<dots> = ?q"
  proof (rule live_rest_noop)
    show "pendingBroadcast ?q" by simp
    show "\<forall>(t, m) \<in> set later. filter (is_due_send t) (timers ?q) = [] \<and>
       msg_type m \<noteq> ''server_restarting'' \<and>
       t - lastBroadcastTime ?q < WS_UPDATE_INTERVAL ?q"
    proof (clarify, intro conjI)
      fix t m assume tm: "(t, m) \<in> set later"
      then have "t < lastBroadcastTime st + WS_UPDATE_INTERVAL st"
        using in_time [of t m] by simp
      then show "filter (is_due_send t) (timers ?q) = []" by (rule early)
      show "msg_type m \<noteq> ''server_restarting''"
        using assms(3) tm by fastforce
      show "t - lastBroadcastTime ?q < WS_UPDATE_INTERVAL ?q"
        using assms(3) tm by fastforce
    qed
  qed
  finally have live: "broadcastBurstLive ((t1, m1) # later) st = ?q" .
  have quiet: "\<forall>T'. T' < lastBroadcastTime st + WS_UPDATE_INTERVAL st \<longrightarrow>
            runDueSends T' ?q = ?q"
    using early by (intro allI impI runDueSends_none)
  have due: "is_due_send T ?tm"
    using assms(4) by (simp add: is_due_send_def)
  have keep: "filter (\<lambda>t. \<not> is_due_send T t) (timers st) = timers st"
    using assms(2) by (simp add: filter_empty_conv)
  have fired: "runDueSends T ?q =
          st\<lparr>webClients := send_to_open m1 (webClients st), lastBroadcastTime := T\<rparr>"
    using assms(1,2) due keep
    by (simp add: runDueSends_def run_send_def deferredSend_def)
  show ?thesis
    unfolding live b using quiet fired by simp
qed

theorem broadcastBurst_coalesces_to_first_witness:
  "status_A \<noteq> status_C \<and>
   timers (broadcastBurstLive [(100, status_A), (200, status_B), (300, status_C)]
             one_client_server) =
     [\<lparr>t_set_at = 100, t_delay = 900, t_callback = Deferred_send status_A\<rparr>] \<and>
   webClients (runDueSends 999
      (broadcastBurstLive [(100, status_A), (200, status_B), (300, status_C)]
         one_client_server)) =
     [\<lparr>readyState = 1, received = []\<rparr>] \<and>
   webClients (runDueSends 1000
      (broadcastBurstLive [(100, status_A), (200, status_B), (300, status_C)]
         one_client_server)) =
     [\<lparr>readyState = 1, received = [status_A]\<rparr>]"
proof -
  have 1: "\<not> pendingBroadcast one_client_server"
    by (simp add: one_client_server_def initial_server_def)
  have 2: "filter (is_due_send 1000) (timers one_client_server) = []"
    by (simp add: one_client_server_def initial_server_def)
  have 3: "\<forall>(t, m) \<in> set ((100, status_A) # [(200, status_B), (300, status_C)]).
             msg_type m \<noteq> ''server_restarting'' \<and>
             t - lastBroadcastTime one_client_server < WS_UPDATE_INTERVAL one_client_server"
    by (simp add: one_client_server_def initial_server_def status_A_def status_B_def
          status_C_def WS_UPDATE_INTERVAL_of_env_def)
  have 4: "lastBroadcastTime one_client_server + WS_UPDATE_INTERVAL one_client_server \<le> 1000"
    by (simp add: one_client_server_def initial_server_def WS_UPDATE_INTERVAL_of_env_def)
  have w: "webClients one_client_server = [\<lparr>readyState = 1, received = []\<rparr>]"
    by (simp add: one_client_server_def)
  have tm: "timers one_client_server = []"
    by (simp add: one_client_server_def initial_server_def)
  have lb: "lastBroadcastTime one_client_server = 0"
    and iv: "WS_UPDATE_INTERVAL one_client_server = 1000"
    by (simp_all add: one_client_server_def initial_server_def WS_UPDATE_INTERVAL_of_env_def)
  note inst = broadcastBurst_coalesces_to_first [OF 1 2 3 4]
  have differ: "status_A \<noteq> status_C"
    by (simp add: status_A_def status_C_def defaultPrinterStatus_def)
  have scheduled: "timers (broadcastBurstLive [(100, status_A), (200, status_B), (300, status_C)]
             one_client_server) =
     [\<lparr>t_set_at = 100, t_delay = 900, t_callback = Deferred_send status_A\<rparr>]"
    by (simp add: inst [THEN conjunct1] tm lb iv)
  have "runDueSends 999 (broadcastBurstLive [(100, status_A), (200, status_B), (300, status_C)]
                           one_client_server) =
        broadcastBurstLive [(100, status_A), (200, status_B), (300, status_C)] one_client_server"
    by (rule inst [THEN conjunct2, THEN conjunct2, THEN conjunct1, THEN spec, THEN mp])
       (simp add: lb iv)
  then have before: "webClients (runDueSends 999
      (broadcastBurstLive [(100, status_A), (200, status_B), (300, status_C)]
         one_client_server)) = [\<lparr>readyState = 1, received = []\<rparr>]"
    by (simp add: inst [THEN conjunct1] w)
  have fired: "webClients (runDueSends 1000
      (broadcastBurstLive [(100, status_A), (200, status_B), (300, status_C)]
         one_client_server)) = [\<lparr>readyState = 1, received = [status_A]\<rparr>]"
    by (simp add: inst [THEN conjunct2, THEN conjunct2, THEN conjunct2] w send_to_open_def
          WebSocket_OPEN_def)
  from differ scheduled before fired show ?thesis by simp
qed

section \<open>Disconnect handling is idempotent\<close>

lemma setDisconnectedStatus_noop:
  "disconnected_shape (printerStatus st) \<Longrightarrow> setDisconnectedStatus now st = st"
  by (simp add: setDisconnectedStatus_def disconnected_shape_def)

lemma setDisconnectedStatus_shape:
  "disconnected_shape (printerStatus (setDisconnectedStatus now st))"
  by (simp add: setDisconnectedStatus_def disconnected_shape_def defaultPrinterStatus_def Let_def)

lemma printerLostEvents_noop:
  "disconnected_shape (printerStatus st) \<Longrightarrow> printerLostEvents clock st = st"
  by (induction clock) (simp_all add: printerLostEvents_def setDisconnectedStatus_noop)

lemma printerLostEvents_Cons:
  "printerLostEvents (t # clock) st = printerLostEvents clock (setDisconnectedStatus t st)"
  by (simp add: printerLostEvents_def)

text \<open>
  Claim C10. When \<open>printerStatus\<close> has \<open>connected = false\<close>,
  \<open>printerName = 'Unknown'\<close> and \<open>state = 'Disconnected'\<close>, \<open>setDisconnectedStatus\<close>
  returns the server state as it found it: no field of \<open>printerStatus\<close> changes,
  \<open>reconnectSetupNeeded\<close> is not set and the broadcast gate is not called. So a run of
  disconnect and error events does what its first event does: from a state that is not
  in that shape, one reset to the defaults and one call of \<open>broadcastToClients\<close>.
\<close>

theorem setDisconnectedStatus_idempotent:
  "(disconnected_shape (printerStatus st) \<longrightarrow> setDisconnectedStatus now st = st) \<and>
   printerLostEvents (t # clock) st = setDisconnectedStatus t st \<and>
   (\<not> disconnected_shape (printerStatus st) \<longrightarrow>
      printerLostEvents (t # clock) st =
        (let st1 = st\<lparr>reconnectSetupNeeded := True,
                      printerStatus := defaultPrinterStatus\<lparr>lastUpdate := Some t\<rparr>\<rparr>
         in broadcastToClients t (status_message st1) st1))"
proof -
  have a: "disconnected_shape (printerStatus st) \<longrightarrow> setDisconnectedStatus now st = st"
    by (simp add: setDisconnectedStatus_noop)
  have b: "printerLostEvents (t # clock) st = setDisconnectedStatus t st"
    by (simp add: printerLostEvents_Cons printerLostEvents_noop setDisconnectedStatus_shape)
  have c: "\<not> disconnected_shape (printerStatus st) \<longrightarrow>
      setDisconnectedStatus t st =
        (let st1 = st\<lparr>reconnectSetupNeeded := True,
                      printerStatus := defaultPrinterStatus\<lparr>lastUpdate := Some t\<rparr>\<rparr>
         in broadcastToClients t (status_message st1) st1)"
    by (simp add: setDisconnectedStatus_def disconnected_shape_def)
  from a b c show ?thesis by simp
qed

theorem setDisconnectedStatus_idempotent_witness:
  "setDisconnectedStatus 7000 (initial_server None) = initial_server None \<and>
   printerStatus (printerLostEvents [7000, 7001, 7002] connected_server) =
     defaultPrinterStatus\<lparr>lastUpdate := Some 7000\<rparr> \<and>
   reconnectSetupNeeded (printerLostEvents [7000, 7001, 7002] connected_server) \<and>
   lastBroadcastTime (printerLostEvents [7000, 7001, 7002] connected_server) = 7000"
proof -
  have s0: "disconnected_shape (printerStatus (initial_server None))"
    by (simp add: disconnected_shape_def initial_server_def defaultPrinterStatus_def)
  have s1: "\<not> disconnected_shape (printerStatus connected_server)"
    by (simp add: disconnected_shape_def connected_server_def defaultPrinterStatus_def)
  have first: "setDisconnectedStatus 7000 (initial_server None) = initial_server None"
    by (rule setDisconnectedStatus_idempotent
      [where st = "initial_server None" and now = 7000 and t = 7000 and clock = "[]",
        THEN conjunct1, THEN mp, OF s0])
  have run: "printerLostEvents [7000, 7001, 7002] connected_server =
      (let st1 = connected_server\<lparr>reconnectSetupNeeded := True,
                    printerStatus := defaultPrinterStatus\<lparr>lastUpdate := Some 7000\<rparr>\<rparr>
       in broadcastToClients 7000 (status_message st1) st1)"
    by (rule setDisconnectedStatus_idempotent
      [where st = connected_server and now = 7000 and t = 7000 and clock = "[7001, 7002]",
        THEN conjunct2, THEN conjunct2, THEN mp, OF s1])
  have sent: "lastBroadcastTime (printerLostEvents [7000, 7001, 7002] connected_server) = 7000"
    unfolding run
    by (simp add: Let_def connected_server_def initial_server_def broadcastToClients_def
          status_message_def WS_UPDATE_INTERVAL_of_env_def)
  show ?thesis
    using first sent by (simp add: run Let_def)
qed

section \<open>The camera failure tracker\<close>

lemma handle_tracker:
  "cameraStartFailure (handleCameraStartFailure now e st) =
     track_failure (failure_message e) (cameraStartFailure st)"
  by (simp add: handleCameraStartFailure_def Let_def)



lemma handle_cameraStreamURL [simp]:
  "cameraStreamURL (handleCameraStartFailure now e st) = cameraStreamURL st"
  by (simp add: handleCameraStartFailure_def Let_def)

subsection \<open>What a broadcast leaves of the restart observations\<close>

lemma exit_timers_broadcast [simp]:
  "exit_timers (broadcastToClients now m st) = exit_timers st"
  by (simp add: exit_timers_def broadcastToClients_def Let_def)

lemma notices_send_other:
  "msg_type m \<noteq> ''server_restarting'' \<Longrightarrow>
   map (\<lambda>c. (readyState c, filter (\<lambda>m. msg_type m = ''server_restarting'') (received c)))
     (send_to_open m cs) =
   map (\<lambda>c. (readyState c, filter (\<lambda>m. msg_type m = ''server_restarting'') (received c))) cs"
  by (induction cs) (simp_all add: send_to_open_def)


lemma restart_notices_broadcast:
  "msg_type m \<noteq> ''server_restarting'' \<Longrightarrow>
   restart_notices (broadcastToClients now m st) = restart_notices st"
  by (simp add: restart_notices_def broadcastToClients_def Let_def notices_send_other)

lemma observations_frame [simp]:
  "exit_timers (st\<lparr>printerStatus := p\<rparr>) = exit_timers st"
  "restart_notices (st\<lparr>printerStatus := p\<rparr>) = restart_notices st"
  "restart_notices (st\<lparr>timers := ts\<rparr>) = restart_notices st"
  "exit_timers (st\<lparr>timers := timers st @
      [\<lparr>t_set_at = now, t_delay = dl, t_callback = Call_startCameraStreaming\<rparr>]\<rparr>) =
   exit_timers st"
  by (simp_all add: exit_timers_def restart_notices_def)

lemma restart_notices_status [simp]:
  "restart_notices (broadcastToClients now (status_message s) st) = restart_notices st"
  by (rule restart_notices_broadcast) (simp add: status_message_def)

subsection \<open>Every failure path reaches the tracker\<close>







lemma startCameraStreaming_cameraStreamURL [simp]:
  "cameraStreamURL (startCameraStreaming fetched now st) = cameraStreamURL st"
  by (simp add: startCameraStreaming_def resetCameraFailureTracker_def Let_def
      split: option.splits fetch_result.splits)

subsection \<open>Streaks of failed relay starts\<close>








section \<open>The frame throttle\<close>

lemma relayFrames_append:
  "relayFrames (xs @ ys) loop = relayFrames ys (relayFrames xs loop)"
  by (simp add: relayFrames_def)

lemma relayFrames_Cons:
  "relayFrames ((now, frame) # ys) loop = relayFrames ys (processFrame now frame loop)"
  by (simp add: relayFrames_def)

lemma relayFrames_Nil: "relayFrames [] loop = loop"
  by (simp add: relayFrames_def)

lemma processFrame_drop:
  "\<not> (length frame > 0 \<and> of_int (now - fst loop) \<ge> minFrameInterval) \<Longrightarrow>
   processFrame now frame loop = loop"
  by (cases loop) (auto simp add: processFrame_def)

text \<open>
  The comparison is between an integer number of milliseconds and \<open>1000 / 15\<close>: it
  holds from 67 ms on.
\<close>

lemma minFrameInterval_int: "(of_int d \<ge> minFrameInterval) = (d \<ge> 67)"
proof -
  have "(of_int d \<ge> minFrameInterval) = ((200::rat) \<le> of_int (3 * d))"
    by (simp add: minFrameInterval_def MAX_FPS_def field_simps)
  also have "\<dots> = (200 \<le> 3 * d)"
    by (metis of_int_le_iff of_int_numeral)
  also have "\<dots> = (d \<ge> 67)" by arith
  finally show ?thesis .
qed

subsection \<open>The read loop handles its frames one by one\<close>

lemma relays_refl: "relays clock s s []"
  by (cases s) (simp add: relays_def relayFrames_def)

lemma relays_step:
  assumes "f \<noteq> []"
    and "relays clock (b1, Suc k, fst (processFrame (clock k) f (l, st)),
                       snd (processFrame (clock k) f (l, st))) after parsed"
  shows "relays clock (b0, k, l, st) after ((clock k, f) # parsed)"
  using assms
  by (cases after) (auto simp add: relays_def relayFrames_Cons upt_conv_Cons)

lemma relays_buffer:
  "relays clock (b1, k, l, st) after parsed \<Longrightarrow> relays clock (b0, k, l, st) after parsed"
  by (cases after) (simp add: relays_def)

lemma relays_trans:
  "relays clock s1 s2 xs \<Longrightarrow> relays clock s2 s3 ys \<Longrightarrow> relays clock s1 s3 (xs @ ys)"
  apply (cases s1; cases s2; cases s3)
  apply (auto simp add: relays_def relayFrames_append)
  subgoal for b1 k1 l1 st1 b2 k2 l2 st2 b3 k3
    by (metis le_Suc_ex map_append upt_add_eq_append)
  done

lemma scanFrames_relays:
  "\<exists>parsed. relays clock (buffer, k, l, st) (scanFrames b clock (buffer, k, l, st)) parsed"
proof (induction b clock "(buffer, k, l, st)" arbitrary: buffer k l st rule: scanFrames.induct)
  case (1 boundaryBuffer clock buffer k lastFrameTime st)
  show ?case
  proof (cases "indexOf buffer boundaryBuffer 0")
    case None
    then show ?thesis
      by (subst scanFrames.simps) (auto intro: relays_refl)
  next
    case (Some boundaryIndex)
    note bi = Some
    show ?thesis
    proof (cases "indexOf buffer CRLFCRLF (boundaryIndex + length boundaryBuffer)")
      case None
      then show ?thesis
        using bi by (subst scanFrames.simps) (auto intro: relays_refl)
    next
      case (Some headersEnd)
      note he = Some
      show ?thesis
      proof (cases "indexOf buffer boundaryBuffer (headersEnd + 4)")
        case None
        then show ?thesis
          using bi he by (subst scanFrames.simps) (auto intro: relays_refl)
      next
        case (Some nextBoundaryIndex)
        note nb = Some
        define frameEnd where "frameEnd =
                           (if buffer ! (nextBoundaryIndex - 2) = 13 \<and>
                               buffer ! (nextBoundaryIndex - 1) = 10
                            then nextBoundaryIndex - 2
                            else if buffer ! (nextBoundaryIndex - 1) = 10
                            then nextBoundaryIndex - 1 else nextBoundaryIndex)"
        define frameBuffer where
          "frameBuffer = take (frameEnd - (headersEnd + 4)) (drop (headersEnd + 4) buffer)"
        define k1 where "k1 = (if length frameBuffer > 0 then k + 1 else k)"
        define loop1 where "loop1 = (if length frameBuffer > 0
                                  then processFrame (clock k) frameBuffer (lastFrameTime, st)
                                  else (lastFrameTime, st))"
        have unfold: "scanFrames boundaryBuffer clock (buffer, k, lastFrameTime, st) =
            scanFrames boundaryBuffer clock (drop nextBoundaryIndex buffer, k1, fst loop1, snd loop1)"
          using bi he nb
          by (subst scanFrames.simps)
             (simp add: Let_def frameEnd_def frameBuffer_def k1_def loop1_def)
        have "\<exists>parsed. relays clock (drop nextBoundaryIndex buffer, k1, fst loop1, snd loop1)
                 (scanFrames boundaryBuffer clock
                    (drop nextBoundaryIndex buffer, k1, fst loop1, snd loop1)) parsed"
          by (rule "1.hyps" [OF bi he nb refl frameEnd_def frameBuffer_def k1_def loop1_def])
        then obtain parsed where
          p0: "relays clock (drop nextBoundaryIndex buffer, k1, fst loop1, snd loop1)
                 (scanFrames boundaryBuffer clock
                    (drop nextBoundaryIndex buffer, k1, fst loop1, snd loop1)) parsed" ..
        have p: "relays clock (drop nextBoundaryIndex buffer, k1, fst loop1, snd loop1)
                 (scanFrames boundaryBuffer clock (buffer, k, lastFrameTime, st)) parsed"
          using p0 by (simp only: unfold)
        show ?thesis
        proof (cases "length frameBuffer > 0")
          case True
          have k1: "k1 = Suc k" using True by (simp add: k1_def)
          have l1: "loop1 = processFrame (clock k) frameBuffer (lastFrameTime, st)"
            using True by (simp add: loop1_def)
          have ne: "frameBuffer \<noteq> []" using True by simp
          have "relays clock (buffer, k, lastFrameTime, st)
                 (scanFrames boundaryBuffer clock (buffer, k, lastFrameTime, st))
                 ((clock k, frameBuffer) # parsed)"
            using p unfolding k1 l1 by (rule relays_step [OF ne])
          then show ?thesis ..
        next
          case False
          have k1: "k1 = k" using False by (simp add: k1_def)
          have l1: "loop1 = (lastFrameTime, st)" using False by (simp add: loop1_def)
          have "relays clock (buffer, k, lastFrameTime, st)
                 (scanFrames boundaryBuffer clock (buffer, k, lastFrameTime, st)) parsed"
            using p unfolding k1 l1 by (simp add: relays_buffer)
          then show ?thesis ..
        qed
      qed
    qed
  qed
qed

lemma readChunk_relays:
  "\<exists>parsed. relays clock loop (readChunk b clock chunk loop) parsed"
proof (cases loop)
  case (fields buffer k l st)
  obtain parsed where
    "relays clock (buffer @ chunk, k, l, st) (scanFrames b clock (buffer @ chunk, k, l, st)) parsed"
    using scanFrames_relays by blast
  then have "relays clock (buffer, k, l, st) (readChunk b clock chunk (buffer, k, l, st)) parsed"
    by (simp add: readChunk_def relays_buffer)
  then show ?thesis using fields by blast
qed

lemma readLoop_relays:
  "\<exists>parsed. relays clock loop (readLoop b clock chunks loop) parsed"
proof (induction chunks arbitrary: loop)
  case Nil
  then show ?case by (auto simp add: readLoop_def intro: relays_refl)
next
  case (Cons chunk chunks)
  obtain xs where xs: "relays clock loop (readChunk b clock chunk loop) xs"
    using readChunk_relays by blast
  obtain ys where ys: "relays clock (readChunk b clock chunk loop)
                         (readLoop b clock chunks (readChunk b clock chunk loop)) ys"
    using Cons.IH by blast
  have "readLoop b clock (chunk # chunks) loop =
          readLoop b clock chunks (readChunk b clock chunk loop)"
    by (simp add: readLoop_def)
  then show ?case using relays_trans [OF xs ys] by auto
qed

text \<open>
  Claim C7. Whatever the read loop does to the server state and to \<open>lastFrameTime\<close>
  while it reads chunks, it does by handling the non-empty frames it parses one by one,
  each at the clock reading taken for it. Such a frame, when at least
  \<open>1000 / MAX_FPS\<close> ms have passed since the last accepted frame, becomes
  \<open>latestFrame\<close> and is dispatched to the subscribers, and its time becomes the time
  of the last accepted frame. A frame that comes earlier changes nothing, neither the
  server state nor the loop's own: the loop goes on exactly as if the frame had never
  been parsed, so it is not queued and not delivered later.
\<close>

theorem processFrame_throttle:
  "(\<exists>parsed. relays clock loop4 (readLoop boundaryBuffer clock chunks loop4) parsed) \<and>
   (length frame > 0 \<and> of_int (now - lastFrameTime) \<ge> (1000::rat) / of_nat MAX_FPS \<longrightarrow>
      processFrame now frame (lastFrameTime, st) =
        (now, st\<lparr>latestFrame := Some frame,
                 cameraSubscribers := dispatchFrame frame (cameraSubscribers st)\<rparr>)) \<and>
   (\<not> (of_int (now - lastFrameTime) \<ge> (1000::rat) / of_nat MAX_FPS) \<longrightarrow>
      processFrame now frame (lastFrameTime, st) = (lastFrameTime, st)) \<and>
   (\<not> (of_int (now - fst (relayFrames earlier loop)) \<ge> (1000::rat) / of_nat MAX_FPS) \<longrightarrow>
      relayFrames (earlier @ (now, frame) # later) loop = relayFrames (earlier @ later) loop)"
proof -
  have r: "\<exists>parsed. relays clock loop4 (readLoop boundaryBuffer clock chunks loop4) parsed"
    by (rule readLoop_relays)
  have a: "length frame > 0 \<and> of_int (now - lastFrameTime) \<ge> (1000::rat) / of_nat MAX_FPS \<longrightarrow>
      processFrame now frame (lastFrameTime, st) =
        (now, st\<lparr>latestFrame := Some frame,
                 cameraSubscribers := dispatchFrame frame (cameraSubscribers st)\<rparr>)"
    by (simp add: processFrame_def minFrameInterval_def)
  have b: "\<not> (of_int (now - lastFrameTime) \<ge> (1000::rat) / of_nat MAX_FPS) \<longrightarrow>
      processFrame now frame (lastFrameTime, st) = (lastFrameTime, st)"
    by (simp add: processFrame_def minFrameInterval_def)
  have c: "\<not> (of_int (now - fst (relayFrames earlier loop)) \<ge> (1000::rat) / of_nat MAX_FPS) \<longrightarrow>
      relayFrames (earlier @ (now, frame) # later) loop = relayFrames (earlier @ later) loop"
  proof
    assume h: "\<not> (of_int (now - fst (relayFrames earlier loop)) \<ge> (1000::rat) / of_nat MAX_FPS)"
    then have "processFrame now frame (relayFrames earlier loop) = relayFrames earlier loop"
      by (intro processFrame_drop) (simp add: minFrameInterval_def)
    then show "relayFrames (earlier @ (now, frame) # later) loop = relayFrames (earlier @ later) loop"
      by (simp add: relayFrames_append relayFrames_Cons)
  qed
  from r a b c show ?thesis by blast
qed

theorem processFrame_throttle_witness:
  "processFrame 100 [1, 2] (0, one_subscriber_server) =
     (100, one_subscriber_server
        \<lparr>latestFrame := Some [1, 2],
         cameraSubscribers := [\<lparr>sub_id = 1, res_throws = False, frames_written = [[1, 2]]\<rparr>]\<rparr>) \<and>
   processFrame 166 [3] (100, one_subscriber_server) = (100, one_subscriber_server) \<and>
   relayFrames ([(100, [1, 2])] @ (166, [3]) # [(167, [5, 6])]) (0, one_subscriber_server) =
     relayFrames ([(100, [1, 2])] @ [(167, [5, 6])]) (0, one_subscriber_server)"
proof -
  have subs: "cameraSubscribers one_subscriber_server =
                [\<lparr>sub_id = 1, res_throws = False, frames_written = []\<rparr>]"
    by (simp add: one_subscriber_server_def)
  have first: "fst (relayFrames [(100, [1, 2])] (0, one_subscriber_server)) = 100"
    by (simp add: relayFrames_Cons relayFrames_Nil processFrame_def minFrameInterval_def
          MAX_FPS_def)
  note accepted = processFrame_throttle
    [where frame = "[1, 2]" and now = 100 and lastFrameTime = 0 and st = one_subscriber_server,
      THEN conjunct2, THEN conjunct1]
  note dropped = processFrame_throttle
    [where frame = "[3]" and now = 166 and lastFrameTime = 100 and st = one_subscriber_server and
      earlier = "[(100, [1, 2])]" and loop = "(0, one_subscriber_server)" and
      later = "[(167, [5, 6])]", THEN conjunct2, THEN conjunct2]
  have a: "processFrame 100 [1, 2] (0, one_subscriber_server) =
     (100, one_subscriber_server
        \<lparr>latestFrame := Some [1, 2],
         cameraSubscribers := dispatchFrame [1, 2] (cameraSubscribers one_subscriber_server)\<rparr>)"
    by (rule accepted [THEN mp]) (simp add: MAX_FPS_def)
  have b: "processFrame 166 [3] (100, one_subscriber_server) = (100, one_subscriber_server)"
    by (rule dropped [THEN conjunct1, THEN mp]) (simp add: MAX_FPS_def)
  have c: "relayFrames ([(100, [1, 2])] @ (166, [3]) # [(167, [5, 6])]) (0, one_subscriber_server) =
     relayFrames ([(100, [1, 2])] @ [(167, [5, 6])]) (0, one_subscriber_server)"
    by (rule dropped [THEN conjunct2, THEN mp]) (simp add: first MAX_FPS_def)
  show ?thesis
    unfolding a b using c by (simp add: subs dispatchFrame_def)
qed

text \<open>
  The sample stream, read as one chunk with clock readings 100 and 120: the first part
  is relayed, the second comes 20 ms later and is dropped, and the buffer keeps the
  closing boundary.
\<close>

lemma scanFrames_sample:
  "(case scanFrames sample_boundary (\<lambda>k. if k = 0 then 100 else 120)
           (sample_stream, 0, 0, one_subscriber_server) of
      (buffer, k, lastFrameTime, st) \<Rightarrow>
        (buffer, k, lastFrameTime, latestFrame st, map frames_written (cameraSubscribers st))) =
   (sample_boundary, 2, 100, Some [1, 2], [[[1, 2]]])"
  by code_simp

section \<open>Attaching a camera subscriber\<close>

lemma find_dispatchFrame:
  "find (\<lambda>s. sub_id s = i) subs = Some s0 \<Longrightarrow> \<not> res_throws s0 \<Longrightarrow>
   find (\<lambda>s. sub_id s = i) (dispatchFrame f subs) =
     Some (s0\<lparr>frames_written := frames_written s0 @ [f]\<rparr>)"
  by (induction subs) (auto simp add: dispatchFrame_def split: if_splits)

lemma processFrame_attached:
  "attached_with i frame (snd loop) \<Longrightarrow> attached_with i frame (snd (processFrame now f loop))"
  by (cases loop)
     (auto simp add: processFrame_def attached_with_def find_dispatchFrame
        split: option.splits list.splits)

lemma relayFrames_attached:
  "attached_with i frame (snd loop) \<Longrightarrow> attached_with i frame (snd (relayFrames parsed loop))"
proof (induction parsed arbitrary: loop)
  case Nil
  then show ?case by (simp add: relayFrames_def)
next
  case (Cons p parsed)
  obtain now f where p: "p = (now, f)" by (cases p)
  have "attached_with i frame (snd (processFrame now f loop))"
    using Cons.prems by (rule processFrame_attached)
  then have "attached_with i frame (snd (relayFrames parsed (processFrame now f loop)))"
    by (rule Cons.IH)
  then show ?case by (simp add: p relayFrames_Cons)
qed

lemma readLoop_attached:
  assumes "attached_with i frame st"
  shows "attached_with i frame
           (snd (snd (snd (readLoop b clock chunks (buffer, k, lastFrameTime, st)))))"
proof -
  obtain parsed where
    r: "relays clock (buffer, k, lastFrameTime, st)
          (readLoop b clock chunks (buffer, k, lastFrameTime, st)) parsed"
    using readLoop_relays by blast
  obtain buffer' k' l' st' where
    after: "readLoop b clock chunks (buffer, k, lastFrameTime, st) = (buffer', k', l', st')"
    by (cases "readLoop b clock chunks (buffer, k, lastFrameTime, st)")
  have "(l', st') = relayFrames parsed (lastFrameTime, st)"
    using r by (simp add: relays_def after)
  then have "st' = snd (relayFrames parsed (lastFrameTime, st))"
    by (metis snd_conv)
  moreover have "attached_with i frame (snd (relayFrames parsed (lastFrameTime, st)))"
    using assms by (intro relayFrames_attached) simp
  ultimately show ?thesis by (simp add: after)
qed

lemma find_fresh_append:
  "i \<notin> sub_id ` set subs \<Longrightarrow> sub_id s = i \<Longrightarrow> find (\<lambda>s. sub_id s = i) (subs @ [s]) = Some s"
  by (induction subs) auto

lemma cameraAttach_subscribers:
  "cameraSubscribers (cameraAttach new_id now st) =
     cameraSubscribers st @
       [\<lparr>sub_id = new_id, res_throws = False,
         frames_written = (case latestFrame st of None \<Rightarrow> [] | Some frame \<Rightarrow> [frame])\<rparr>]"
  by (simp add: cameraAttach_def Let_def split: option.splits)

text \<open>
  Claim C8. Attaching a subscriber (a closure not yet in the set) adds it to the set
  and, in the same step, calls it with the cached frame when there is one: it has then
  written exactly that frame, the subscribers that were there before are not written
  to, and whatever frames a read loop relays afterwards come after it. With no cached
  frame the new subscriber has written no frame when the step ends.
\<close>

theorem cameraAttach_sends_cached_frame:
  assumes "new_id \<notin> sub_id ` set (cameraSubscribers st)"
  shows "cameraSubscribers (cameraAttach new_id now st) =
           cameraSubscribers st @
             [\<lparr>sub_id = new_id, res_throws = False,
               frames_written = (case latestFrame st of None \<Rightarrow> [] | Some frame \<Rightarrow> [frame])\<rparr>] \<and>
         (latestFrame st = Some frame \<longrightarrow>
            subscriber_frames new_id (cameraAttach new_id now st) = Some [frame] \<and>
            (\<exists>rest. subscriber_frames new_id
                       (snd (snd (snd (readLoop boundaryBuffer clock chunks
                          (buffer, k, lastFrameTime, cameraAttach new_id now st))))) =
                     Some (frame # rest))) \<and>
         (latestFrame st = None \<longrightarrow>
            subscriber_frames new_id (cameraAttach new_id now st) = Some [])"
proof -
  let ?st' = "cameraAttach new_id now st"
  let ?after = "snd (snd (snd (readLoop boundaryBuffer clock chunks
                          (buffer, k, lastFrameTime, ?st'))))"
  have subs: "cameraSubscribers ?st' =
           cameraSubscribers st @
             [\<lparr>sub_id = new_id, res_throws = False,
               frames_written = (case latestFrame st of None \<Rightarrow> [] | Some frame \<Rightarrow> [frame])\<rparr>]"
    by (rule cameraAttach_subscribers)
  have found: "find (\<lambda>s. sub_id s = new_id) (cameraSubscribers ?st') =
      Some \<lparr>sub_id = new_id, res_throws = False,
               frames_written = (case latestFrame st of None \<Rightarrow> [] | Some frame \<Rightarrow> [frame])\<rparr>"
    unfolding subs using assms by (intro find_fresh_append) simp_all
  have none: "latestFrame st = None \<longrightarrow> subscriber_frames new_id ?st' = Some []"
    by (simp add: subscriber_frames_def found)
  have some: "latestFrame st = Some frame \<longrightarrow>
            subscriber_frames new_id ?st' = Some [frame] \<and>
            (\<exists>rest. subscriber_frames new_id ?after = Some (frame # rest))"
  proof
    assume lf: "latestFrame st = Some frame"
    have at_once: "subscriber_frames new_id ?st' = Some [frame]"
      by (simp add: subscriber_frames_def found lf)
    have "attached_with new_id frame ?st'"
      by (simp add: attached_with_def found lf)
    then have "attached_with new_id frame ?after"
      by (rule readLoop_attached)
    then have "\<exists>rest. subscriber_frames new_id ?after = Some (frame # rest)"
      by (auto simp add: attached_with_def subscriber_frames_def
            split: option.splits list.splits)
    with at_once show "subscriber_frames new_id ?st' = Some [frame] \<and>
            (\<exists>rest. subscriber_frames new_id ?after = Some (frame # rest))"
      by simp
  qed
  from subs none some show ?thesis by blast
qed

theorem cameraAttach_sends_cached_frame_witness:
  "subscriber_frames 2 (cameraAttach 2 4000 one_subscriber_server) = Some [[255, 216]] \<and>
   subscriber_frames 1 (cameraAttach 2 4000 one_subscriber_server) = Some [] \<and>
   subscriber_frames 2 (cameraAttach 2 4000 (initial_server None)) = Some []"
proof -
  have f1: "2 \<notin> sub_id ` set (cameraSubscribers one_subscriber_server)"
    by (simp add: one_subscriber_server_def)
  have f0: "2 \<notin> sub_id ` set (cameraSubscribers (initial_server None))"
    by (simp add: initial_server_def)
  have l1: "latestFrame one_subscriber_server = Some [255, 216]"
    by (simp add: one_subscriber_server_def)
  have l0: "latestFrame (initial_server None) = None"
    by (simp add: initial_server_def)
  have s1: "cameraSubscribers one_subscriber_server =
              [\<lparr>sub_id = 1, res_throws = False, frames_written = []\<rparr>]"
    by (simp add: one_subscriber_server_def)
  note with_frame = cameraAttach_sends_cached_frame
    [OF f1, where now = 4000 and frame = "[255, 216]" and boundaryBuffer = sample_boundary and
      clock = "\<lambda>k. 5000" and chunks = "[]" and buffer = "[]" and k = 0 and lastFrameTime = 0]
  note without_frame = cameraAttach_sends_cached_frame
    [OF f0, where now = 4000 and frame = "[255, 216]" and boundaryBuffer = sample_boundary and
      clock = "\<lambda>k. 5000" and chunks = "[]" and buffer = "[]" and k = 0 and lastFrameTime = 0]
  have a: "subscriber_frames 2 (cameraAttach 2 4000 one_subscriber_server) = Some [[255, 216]]"
    using with_frame [THEN conjunct2, THEN conjunct1, THEN mp, OF l1] by simp
  have subs: "cameraSubscribers (cameraAttach 2 4000 one_subscriber_server) =
      [\<lparr>sub_id = 1, res_throws = False, frames_written = []\<rparr>,
       \<lparr>sub_id = 2, res_throws = False, frames_written = [[255, 216]]\<rparr>]"
    by (simp add: with_frame [THEN conjunct1] l1 s1)
  have b: "subscriber_frames 1 (cameraAttach 2 4000 one_subscriber_server) = Some []"
    by (simp add: subscriber_frames_def subs)
  have c: "subscriber_frames 2 (cameraAttach 2 4000 (initial_server None)) = Some []"
    by (rule without_frame [THEN conjunct2, THEN conjunct2, THEN mp, OF l0])
  from a b c show ?thesis by simp
qed

section \<open>The re-entrancy guard of the post-connect setup\<close>

lemma setup_step_guard: "guard_agrees s \<Longrightarrow> guard_agrees (setup_step s ev)"
  by (cases s; cases ev)
     (auto simp add: guard_agrees_def ensureReconnectSetup_enter_def
        ensureReconnectSetup_leave_def onPrinterConnected_begin_def split: if_splits)

lemma setup_run_guard: "guard_agrees s \<Longrightarrow> guard_agrees (setup_run events s)"
  unfolding setup_run_def
  by (induction events arbitrary: s) (simp_all add: setup_step_guard)

text \<open>
  Claim C9. A call of \<open>ensureReconnectSetup\<close> while \<open>reconnectSetupInProgress\<close> is
  set returns at once and changes nothing: no setup is started. Starting with no setup
  in flight, after any sequence of calls and settlings at most one setup is in flight,
  and the flag is set exactly while one is.
\<close>

theorem ensureReconnectSetup_guard:
  "(reconnectSetupInProgress st \<longrightarrow>
      ensureReconnectSetup_enter name st = (False, st) \<and>
      ensureReconnectSetup reply fetched now name st = st \<and>
      setup_step (st, 1) (Trigger name) = (st, 1)) \<and>
   (\<not> reconnectSetupInProgress st \<longrightarrow>
      snd (setup_run events (st, 0)) \<le> 1 \<and>
      (reconnectSetupInProgress (fst (setup_run events (st, 0))) \<longleftrightarrow>
         snd (setup_run events (st, 0)) = 1))"
proof -
  have a: "reconnectSetupInProgress st \<longrightarrow>
      ensureReconnectSetup_enter name st = (False, st) \<and>
      ensureReconnectSetup reply fetched now name st = st \<and>
      setup_step (st, 1) (Trigger name) = (st, 1)"
    by (simp add: ensureReconnectSetup_enter_def ensureReconnectSetup_def)
  have b: "\<not> reconnectSetupInProgress st \<longrightarrow>
      snd (setup_run events (st, 0)) \<le> 1 \<and>
      (reconnectSetupInProgress (fst (setup_run events (st, 0))) \<longleftrightarrow>
         snd (setup_run events (st, 0)) = 1)"
  proof
    assume "\<not> reconnectSetupInProgress st"
    then have "guard_agrees (st, 0)" by (simp add: guard_agrees_def)
    then have "guard_agrees (setup_run events (st, 0))" by (rule setup_run_guard)
    then show "snd (setup_run events (st, 0)) \<le> 1 \<and>
      (reconnectSetupInProgress (fst (setup_run events (st, 0))) \<longleftrightarrow>
         snd (setup_run events (st, 0)) = 1)"
      by (simp add: guard_agrees_def split: if_splits)
  qed
  from a b show ?thesis by blast
qed

theorem ensureReconnectSetup_guard_witness:
  "ensureReconnectSetup_enter (Some ''Centauri Carbon'')
      ((initial_server None)\<lparr>reconnectSetupInProgress := True\<rparr>) =
     (False, (initial_server None)\<lparr>reconnectSetupInProgress := True\<rparr>) \<and>
   snd (setup_run [Trigger None, Trigger None, Settle True, Trigger None, Trigger None]
          (initial_server None, 0)) \<le> 1"
proof -
  have off: "\<not> reconnectSetupInProgress (initial_server None)"
    by (simp add: initial_server_def)
  from ensureReconnectSetup_guard
      [where st = "(initial_server None)\<lparr>reconnectSetupInProgress := True\<rparr>" and
         name = "Some ''Centauri Carbon''"]
    ensureReconnectSetup_guard
      [where st = "initial_server None" and
         events = "[Trigger None, Trigger None, Settle True, Trigger None, Trigger None]"]
    off
  show ?thesis by simp
qed

section \<open>Auto-connect and a connection that fails\<close>

lemma timers_broadcast_autoConnect:
  "filter (\<lambda>t. t_callback t = Call_autoConnect) (timers (broadcastToClients now m st)) =
   filter (\<lambda>t. t_callback t = Call_autoConnect) (timers st)"
  by (simp add: broadcastToClients_def Let_def)

lemma handleCameraStartFailure_autoConnect:
  "autoConnectState (handleCameraStartFailure now e st) = autoConnectState st \<and>
   filter (\<lambda>t. t_callback t = Call_autoConnect) (timers (handleCameraStartFailure now e st)) =
   filter (\<lambda>t. t_callback t = Call_autoConnect) (timers st)"
  by (simp add: handleCameraStartFailure_def Let_def timers_broadcast_autoConnect)

lemma startCameraStreaming_autoConnect:
  "autoConnectState (startCameraStreaming fetched now st) = autoConnectState st \<and>
   filter (\<lambda>t. t_callback t = Call_autoConnect) (timers (startCameraStreaming fetched now st)) =
   filter (\<lambda>t. t_callback t = Call_autoConnect) (timers st)"
  by (simp add: startCameraStreaming_def resetCameraFailureTracker_def Let_def
        timers_broadcast_autoConnect handleCameraStartFailure_autoConnect
      split: option.splits fetch_result.splits)

text \<open>
  A rejected \<open>connect()\<close> never reaches the \<open>catch\<close> of \<open>autoConnect\<close>: the attempt
  ends with the failure counter at 0, the cursor and the list as they were, and no
  further \<open>autoConnect\<close> scheduled.
\<close>

lemma autoConnect_attempt_connect_rejected:
  assumes "client_setup_throws a = None" and "connect_rejects a = Some e"
  shows "autoConnectState (autoConnect_attempt a now st) = (autoConnectState st)\<lparr>failCount := 0\<rparr> \<and>
         filter (\<lambda>t. t_callback t = Call_autoConnect) (timers (autoConnect_attempt a now st)) =
         filter (\<lambda>t. t_callback t = Call_autoConnect) (timers st)"
  using assms
  by (simp add: autoConnect_attempt_def connectToPrinter_def Let_def
        startCameraStreaming_autoConnect timers_broadcast_autoConnect)

text \<open>
  Were the failure to reach \<open>autoConnect\<close> as an exception, the failover would do what
  its comment says: with one candidate, three attempts, then the list is cleared, each
  attempt followed by a retry timer.
\<close>

lemma autoConnect_failover_when_connectToPrinter_throws:
  assumes "client_setup_throws a = Some e"
    and "autoConnectState st = \<lparr>printers = [p], currentIdx = 0, failCount = 0\<rparr>"
  shows "autoConnectState (autoConnect d2 a t2 (autoConnect d1 a t1 st)) =
           \<lparr>printers = [p], currentIdx = 0, failCount = 2\<rparr> \<and>
         autoConnect d3 a t3 (autoConnect d2 a t2 (autoConnect d1 a t1 st)) =
           st\<lparr>autoConnectState := empty_autoConnectState,
              timers := timers st @
                [\<lparr>t_set_at = t1, t_delay = 5000, t_callback = Call_autoConnect\<rparr>,
                 \<lparr>t_set_at = t2, t_delay = 5000, t_callback = Call_autoConnect\<rparr>,
                 \<lparr>t_set_at = t3, t_delay = 5000, t_callback = Call_autoConnect\<rparr>]\<rparr>"
  using assms
  by (simp add: autoConnect_def autoConnect_attempt_def connectToPrinter_def Let_def
        schedule_autoConnect_def empty_autoConnectState_def)

text \<open>
  Claim C2, evaluated on the code. Discovery finds one printer that is no proxy and its
  \<open>connect()\<close> rejects. After \<open>autoConnect\<close> the failure counter is 0, the cursor is
  0, the candidate is still in the list, and no timer calls \<open>autoConnect\<close> again: the
  failure is not counted, so there are no three retries and no rediscovery.
\<close>

theorem autoConnect_treats_failed_connect_as_success:
  "autoConnectState (autoConnect (Inr [unreachable_printer]) connect_fails 5000 (initial_server None)) =
     \<lparr>printers = [unreachable_printer], currentIdx = 0, failCount = 0\<rparr> \<and>
   filter (\<lambda>t. t_callback t = Call_autoConnect)
     (timers (autoConnect (Inr [unreachable_printer]) connect_fails 5000 (initial_server None))) = []"
proof -
  have a: "client_setup_throws connect_fails = None"
    and b: "connect_rejects connect_fails = Some ''Connection timeout''"
    by (simp_all add: connect_fails_def)
  have start: "autoConnect (Inr [unreachable_printer]) connect_fails 5000 (initial_server None) =
      autoConnect_attempt connect_fails 5000
        ((initial_server None)\<lparr>autoConnectState :=
            \<lparr>printers = [unreachable_printer], currentIdx = 0, failCount = 0\<rparr>\<rparr>)"
    by (simp add: autoConnect_def initial_server_def unreachable_printer_def)
  show ?thesis
    unfolding start
    using autoConnect_attempt_connect_rejected [OF a b, where now = 5000 and
      st = "(initial_server None)\<lparr>autoConnectState :=
            \<lparr>printers = [unreachable_printer], currentIdx = 0, failCount = 0\<rparr>\<rparr>"]
    by (simp add: initial_server_def)
qed

end
